theory Spec2Isabelle
  imports Complex_Main
begin

section \<open>Causal self-attention of App-B-Transformer-Basic.ipynb\<close>

text \<open>
  The notebook defines one class, \<open>CausalAttention\<close>, with a constructor and a
  \<open>forward\<close> method built from PyTorch tensor operations. The embedding below follows
  the method statement by statement.

  Number models. There are two. In the first, tensor entries are real numbers with exact
  arithmetic: rounding, overflow and NaN of IEEE floating point are not represented. The
  one special value the method itself writes, \<open>-torch.inf\<close>, is a constructor of the type
  \<open>score\<close>. Two places where torch would produce NaN lie outside this model and are named
  where they occur: a softmax row whose entries are all \<open>-inf\<close>, and the division by
  \<open>keys.shape[-1]**0.5\<close> when the key width is 0. The statements on the shape of the
  computation, on errors, on the random generator and on the store are made on this model.

  In the second model, subsection \<open>forward over float32 values\<close>, an entry is a float32
  value: a real number inside the range, an infinity, or NaN, with the IEEE rules for
  overflow, \<open>0 * inf\<close>, \<open>inf - inf\<close> and NaN. The statements on the values of the attention
  weights and of the context vectors are made on this model, because a finite input can
  overflow on the way and turn a weight or a context vector into NaN.
\<close>

subsection \<open>Tensors\<close>

text \<open>
  A tensor is its shape and its entries. Entries are read by index; every operation
  reads its arguments inside their shape only and returns a tensor whose entries outside
  the shape are a fixed filler, so two tensors with the same shape and the same entries
  are equal.
\<close>

record 'a tensor2 =
  rows :: nat
  cols :: nat
  at2 :: "nat \<Rightarrow> nat \<Rightarrow> 'a"

record 'a tensor3 =
  dim0 :: nat
  dim1 :: nat
  dim2 :: nat
  at3 :: "nat \<Rightarrow> nat \<Rightarrow> nat \<Rightarrow> 'a"

definition tensor2_of :: "'a \<Rightarrow> nat \<Rightarrow> nat \<Rightarrow> (nat \<Rightarrow> nat \<Rightarrow> 'a) \<Rightarrow> 'a tensor2" where
  "tensor2_of z r c f =
     \<lparr>rows = r, cols = c, at2 = (\<lambda>i j. if i < r \<and> j < c then f i j else z)\<rparr>"

definition tensor3_of ::
  "'a \<Rightarrow> nat \<Rightarrow> nat \<Rightarrow> nat \<Rightarrow> (nat \<Rightarrow> nat \<Rightarrow> nat \<Rightarrow> 'a) \<Rightarrow> 'a tensor3" where
  "tensor3_of z b n d f =
     \<lparr>dim0 = b, dim1 = n, dim2 = d,
      at3 = (\<lambda>i j k. if i < b \<and> j < n \<and> k < d then f i j k else z)\<rparr>"

text \<open>Scores after \<open>masked_fill_\<close>: a real number or \<open>-inf\<close>.\<close>

datatype score = Fin real | NegInf

fun exp_score :: "score \<Rightarrow> real" where
  "exp_score (Fin r) = exp r"
| "exp_score NegInf = 0"

text \<open>
  Division of a score by a positive real. \<open>-inf / s\<close> is \<open>-inf\<close>. For \<open>s = 0\<close> torch
  gives NaN or an infinity on a finite score; the model has neither, and the statements
  about attention weights below assume a positive key width.
\<close>

fun div_score :: "score \<Rightarrow> real \<Rightarrow> score" where
  "div_score (Fin r) s = Fin (r / s)"
| "div_score NegInf s = NegInf"

datatype error = RuntimeError | ValueError | TypeError

subsection \<open>The torch operations that forward calls\<close>

text \<open>
  \<open>nn.Linear(d_in, d_out, bias)\<close>: a weight of shape \<open>(d_out, d_in)\<close> and an optional
  bias of length \<open>d_out\<close>. The initial values are drawn at random by torch; here they are
  arguments.
\<close>

record linear =
  weight :: "real tensor2"
  bias :: "(nat \<Rightarrow> real) option"

definition Linear :: "nat \<Rightarrow> nat \<Rightarrow> bool \<Rightarrow> (nat \<Rightarrow> nat \<Rightarrow> real) \<Rightarrow> (nat \<Rightarrow> real) \<Rightarrow> linear" where
  "Linear in_features out_features use_bias w0 b0 =
     \<lparr>weight = tensor2_of 0 out_features in_features w0,
      bias = (if use_bias then Some (\<lambda>k. if k < out_features then b0 k else 0) else None)\<rparr>"

text \<open>The entry \<open>(b, i, h)\<close> of \<open>x @ weight.T + bias\<close>.\<close>

definition affine :: "linear \<Rightarrow> real tensor3 \<Rightarrow> nat \<Rightarrow> nat \<Rightarrow> nat \<Rightarrow> real" where
  "affine l x b i h =
     (\<Sum>k<cols (weight l). at3 x b i k * at2 (weight l) h k) +
     (case bias l of None \<Rightarrow> 0 | Some bv \<Rightarrow> bv h)"

text \<open>
  Calling the layer on a 3-dimensional input: torch raises RuntimeError (shapes cannot
  be multiplied) unless the last dimension of the input is the weight's second.
\<close>

definition linear_forward :: "linear \<Rightarrow> real tensor3 \<Rightarrow> error + real tensor3" where
  "linear_forward l x =
     (if dim2 x \<noteq> cols (weight l) then Inl RuntimeError
      else Inr (tensor3_of 0 (dim0 x) (dim1 x) (rows (weight l)) (affine l x)))"

text \<open>\<open>t.transpose(1, 2)\<close>.\<close>

definition transpose_1_2 :: "'a tensor3 \<Rightarrow> 'a tensor3" where
  "transpose_1_2 t =
     \<lparr>dim0 = dim0 t, dim1 = dim2 t, dim2 = dim1 t, at3 = (\<lambda>b i j. at3 t b j i)\<rparr>"

text \<open>
  \<open>a @ b\<close> on two 3-dimensional tensors: a matrix product per batch element. Both
  operands of every product in forward carry the batch size of the input, so the
  broadcasting of unequal batch sizes is left out: unequal batch sizes are an error here.
\<close>

definition matmul :: "real tensor3 \<Rightarrow> real tensor3 \<Rightarrow> error + real tensor3" where
  "matmul a b =
     (if dim0 a \<noteq> dim0 b \<or> dim2 a \<noteq> dim1 b then Inl RuntimeError
      else Inr (tensor3_of 0 (dim0 a) (dim1 a) (dim2 b)
                  (\<lambda>n i j. \<Sum>k<dim2 a. at3 a n i k * at3 b n k j)))"

text \<open>\<open>torch.ones(r, c)\<close> and \<open>torch.triu(t, diagonal=k)\<close>, which keeps the entries with
  \<open>j - i \<ge> k\<close> and zeroes the others.\<close>

definition ones :: "nat \<Rightarrow> nat \<Rightarrow> real tensor2" where
  "ones r c = tensor2_of 0 r c (\<lambda>i j. 1)"

definition triu :: "real tensor2 \<Rightarrow> int \<Rightarrow> real tensor2" where
  "triu t k =
     tensor2_of 0 (rows t) (cols t) (\<lambda>i j. if k \<le> int j - int i then at2 t i j else 0)"

text \<open>\<open>t.bool()\<close>: an entry is True when it is not zero.\<close>

definition to_bool :: "real tensor2 \<Rightarrow> bool tensor2" where
  "to_bool t = tensor2_of False (rows t) (cols t) (\<lambda>i j. at2 t i j \<noteq> 0)"

text \<open>\<open>t[:n, :m]\<close>: a slice never fails; it stops at the tensor's own size.\<close>

definition slice2 :: "nat \<Rightarrow> nat \<Rightarrow> 'a tensor2 \<Rightarrow> 'a tensor2" where
  "slice2 n m t = t\<lparr>rows := min n (rows t), cols := min m (cols t)\<rparr>"

text \<open>
  A float tensor as a tensor of scores. The product \<open>queries @ keys.transpose(1, 2)\<close>
  is a float tensor that holds \<open>-inf\<close> after the in-place fill, so it is kept at this
  type from its creation.
\<close>

definition to_scores :: "real tensor3 \<Rightarrow> score tensor3" where
  "to_scores t = tensor3_of (Fin 0) (dim0 t) (dim1 t) (dim2 t) (\<lambda>b i j. Fin (at3 t b i j))"

text \<open>
  \<open>t.masked_fill_(m, -torch.inf)\<close> with a 2-dimensional mask on a 3-dimensional tensor.
  The mask is expanded to the tensor's shape: each of its two dimensions must equal the
  tensor's corresponding trailing dimension or be 1 (then its single row or column is
  repeated); otherwise torch raises RuntimeError. The function gives the new content of
  \<open>t\<close>.
\<close>

definition masked_fill_neg_inf :: "score tensor3 \<Rightarrow> bool tensor2 \<Rightarrow> error + score tensor3" where
  "masked_fill_neg_inf t m =
     (if (rows m = dim1 t \<or> rows m = 1) \<and> (cols m = dim2 t \<or> cols m = 1)
      then Inr (tensor3_of (Fin 0) (dim0 t) (dim1 t) (dim2 t)
                  (\<lambda>b i j. if at2 m (if rows m = 1 then 0 else i) (if cols m = 1 then 0 else j)
                           then NegInf else at3 t b i j))
      else Inl RuntimeError)"

text \<open>\<open>t / s\<close> for a scalar \<open>s\<close>.\<close>

definition div_scalar :: "score tensor3 \<Rightarrow> real \<Rightarrow> score tensor3" where
  "div_scalar t s =
     tensor3_of (Fin 0) (dim0 t) (dim1 t) (dim2 t) (\<lambda>b i j. div_score (at3 t b i j) s)"

text \<open>
  \<open>torch.softmax(t, dim=-1)\<close>. On a row with a finite entry this is the value torch
  computes (torch subtracts the row maximum first, which cancels). A row of \<open>-inf\<close> only
  is NaN in torch; forward never builds one (lemma \<open>softmax_denominator_pos\<close>).
\<close>

definition softmax :: "score tensor3 \<Rightarrow> real tensor3" where
  "softmax t =
     tensor3_of 0 (dim0 t) (dim1 t) (dim2 t)
       (\<lambda>b i j. exp_score (at3 t b i j) / (\<Sum>k<dim2 t. exp_score (at3 t b i k)))"

text \<open>
  \<open>nn.Dropout(p)\<close> applied to \<open>t\<close>. The module's \<open>training\<close> flag is True until
  \<open>eval()\<close> is called. torch returns the input itself when \<open>p = 0\<close>, when the module is
  not training, or when the tensor is empty; it returns zeros when \<open>p = 1\<close>; otherwise it
  draws one Bernoulli(1 - p) sample per entry from the global random generator and
  multiplies each entry by \<open>sample / (1 - p)\<close>. The generator is a stream \<open>u\<close> of uniform
  samples in \<open>[0, 1)\<close>; drawing advances it. The result is the tensor and the generator.
\<close>

definition numel :: "'a tensor3 \<Rightarrow> nat" where
  "numel t = dim0 t * dim1 t * dim2 t"

definition dropout ::
  "real \<Rightarrow> bool \<Rightarrow> (nat \<Rightarrow> real) \<Rightarrow> real tensor3 \<Rightarrow> real tensor3 \<times> (nat \<Rightarrow> real)" where
  "dropout p tr u t =
     (if p = 0 \<or> \<not> tr \<or> numel t = 0 then (t, u)
      else if p = 1 then (tensor3_of 0 (dim0 t) (dim1 t) (dim2 t) (\<lambda>b i j. 0), u)
      else (tensor3_of 0 (dim0 t) (dim1 t) (dim2 t)
              (\<lambda>b i j. at3 t b i j *
                 ((if u ((b * dim1 t + i) * dim2 t + j) < 1 - p then 1 else 0) / (1 - p))),
            (\<lambda>k. u (k + numel t))))"

subsection \<open>The class CausalAttention\<close>

record causal_attention =
  d_out :: nat
  W_query :: linear
  W_key :: linear
  W_value :: linear
  dropout_p :: real
  training :: bool
  mask_buf :: "real tensor2"

text \<open>The values the three \<open>nn.Linear\<close> layers draw when they are created.\<close>

record init_values =
  wq0 :: "nat \<Rightarrow> nat \<Rightarrow> real"
  wk0 :: "nat \<Rightarrow> nat \<Rightarrow> real"
  wv0 :: "nat \<Rightarrow> nat \<Rightarrow> real"
  bq0 :: "nat \<Rightarrow> real"
  bk0 :: "nat \<Rightarrow> real"
  bv0 :: "nat \<Rightarrow> real"

text \<open>
  \<open>__init__(self, d_in, d_out, context_length, dropout, qkv_bias=False)\<close>.
  \<open>nn.Dropout\<close> raises ValueError for a probability outside \<open>[0, 1]\<close>. A new module is
  in training mode.
\<close>

definition CausalAttention_init ::
  "nat \<Rightarrow> nat \<Rightarrow> nat \<Rightarrow> real \<Rightarrow> bool \<Rightarrow> init_values \<Rightarrow> error + causal_attention" where
  "CausalAttention_init din dout context_length dropout_prob qkv_bias iv =
     (if dropout_prob < 0 \<or> 1 < dropout_prob then Inl ValueError
      else Inr \<lparr>d_out = dout,
                W_query = Linear din dout qkv_bias (wq0 iv) (bq0 iv),
                W_key = Linear din dout qkv_bias (wk0 iv) (bk0 iv),
                W_value = Linear din dout qkv_bias (wv0 iv) (bv0 iv),
                dropout_p = dropout_prob,
                training = True,
                mask_buf = triu (ones context_length context_length) 1\<rparr>)"

text \<open>\<open>nn.Module.train(mode)\<close>; \<open>eval()\<close> is \<open>train(False)\<close>.\<close>

definition train :: "bool \<Rightarrow> causal_attention \<Rightarrow> causal_attention" where
  "train mode self = self\<lparr>training := mode\<rparr>"

text \<open>
  The local variables of \<open>forward\<close> when it returns. \<open>attn_weights\<close> is assigned twice in
  the source: \<open>attn_softmax\<close> is the value after \<open>torch.softmax\<close>, \<open>attn_weights\<close> the value
  after dropout. \<open>vals\<close> is the source's \<open>values\<close>, and the field \<open>mask_buf\<close> of the
  module is the source's buffer \<open>mask\<close>. \<open>rng_after\<close> is the random generator after the
  call.
\<close>

record locals =
  keys :: "real tensor3"
  queries :: "real tensor3"
  vals :: "real tensor3"
  attn_scores :: "score tensor3"
  attn_softmax :: "real tensor3"
  attn_weights :: "real tensor3"
  rng_after :: "nat \<Rightarrow> real"
  context_vec :: "real tensor3"

text \<open>Sequencing of operations that can raise: the first exception ends the call.\<close>

definition bind_error :: "error + 'a \<Rightarrow> ('a \<Rightarrow> error + 'b) \<Rightarrow> error + 'b" where
  "bind_error r f = (case r of Inl e \<Rightarrow> Inl e | Inr a \<Rightarrow> f a)"

text \<open>
  The body of \<open>forward(self, x)\<close>, statement by statement, with the random generator
  \<open>u\<close> made explicit.
\<close>

definition forward_locals ::
  "causal_attention \<Rightarrow> (nat \<Rightarrow> real) \<Rightarrow> real tensor3 \<Rightarrow> error + locals" where
  "forward_locals self u x =
     (let num_tokens = dim1 x in
      bind_error (linear_forward (W_key self) x) (\<lambda>ks.
      bind_error (linear_forward (W_query self) x) (\<lambda>qs.
      bind_error (linear_forward (W_value self) x) (\<lambda>vs.
      bind_error (matmul qs (transpose_1_2 ks)) (\<lambda>sc.
      bind_error (masked_fill_neg_inf (to_scores sc)
                    (slice2 num_tokens num_tokens (to_bool (mask_buf self)))) (\<lambda>masked.
      let sm = softmax (div_scalar masked (sqrt (real (dim2 ks))));
          dropped = fst (dropout (dropout_p self) (training self) u sm);
          u' = snd (dropout (dropout_p self) (training self) u sm)
      in bind_error (matmul dropped vs) (\<lambda>cv.
         Inr \<lparr>keys = ks, queries = qs, vals = vs, attn_scores = masked,
              attn_softmax = sm, attn_weights = dropped, rng_after = u',
              context_vec = cv\<rparr>)))))))"

definition forward ::
  "causal_attention \<Rightarrow> (nat \<Rightarrow> real) \<Rightarrow> real tensor3 \<Rightarrow> error + real tensor3" where
  "forward self u x = bind_error (forward_locals self u x) (\<lambda>l. Inr (context_vec l))"

subsection \<open>forward on a store\<close>

text \<open>
  The same method with the objects it touches held in a store, so that the in-place
  \<open>masked_fill_\<close> and the global random generator are visible. An address is an index
  into the list of objects; a new object is appended, as nothing is freed during the
  call. Every operation reads its operands from the store through their addresses.
  Only the tensors bound to a name in the source are stored: the temporaries
  \<open>keys.transpose(1, 2)\<close>, \<open>self.mask.bool()[...]\<close> and \<open>attn_scores / ...\<close> are dead
  after their statement. A module is one object, holding its parameters and its buffer.
\<close>

datatype obj = Module causal_attention | Tensor "real tensor3" | Scores "score tensor3"

record state =
  heap :: "obj list"
  rng :: "nat \<Rightarrow> real"

type_synonym 'a action = "state \<Rightarrow> (error + 'a) \<times> state"

definition lookup :: "state \<Rightarrow> nat \<Rightarrow> obj option" where
  "lookup s a = (if a < length (heap s) then Some (heap s ! a) else None)"

definition alloc :: "obj \<Rightarrow> nat action" where
  "alloc v s = (Inr (length (heap s)), s\<lparr>heap := heap s @ [v]\<rparr>)"

definition bind_action :: "'a action \<Rightarrow> ('a \<Rightarrow> 'b action) \<Rightarrow> 'b action" where
  "bind_action f g s = (case f s of (Inl e, s') \<Rightarrow> (Inl e, s') | (Inr a, s') \<Rightarrow> g a s')"

text \<open>Reading a float tensor; a reference to anything else is a TypeError.\<close>

definition read_tensor :: "nat \<Rightarrow> real tensor3 action" where
  "read_tensor a s = (case lookup s a of Some (Tensor t) \<Rightarrow> (Inr t, s) | _ \<Rightarrow> (Inl TypeError, s))"

definition read_scores :: "nat \<Rightarrow> score tensor3 action" where
  "read_scores a s = (case lookup s a of Some (Scores t) \<Rightarrow> (Inr t, s) | _ \<Rightarrow> (Inl TypeError, s))"

definition read_module :: "nat \<Rightarrow> causal_attention action" where
  "read_module a s = (case lookup s a of Some (Module m) \<Rightarrow> (Inr m, s) | _ \<Rightarrow> (Inl TypeError, s))"

definition lift :: "error + 'a \<Rightarrow> 'a action" where
  "lift r s = (r, s)"

text \<open>\<open>layer(x)\<close>: a new tensor.\<close>

definition linear_call :: "linear \<Rightarrow> nat \<Rightarrow> nat action" where
  "linear_call l x =
     bind_action (read_tensor x) (\<lambda>xv.
     bind_action (lift (linear_forward l xv)) (\<lambda>y.
     alloc (Tensor y)))"

text \<open>\<open>a @ b.transpose(1, 2)\<close>: a new tensor.\<close>

definition matmul_transposed_call :: "nat \<Rightarrow> nat \<Rightarrow> nat action" where
  "matmul_transposed_call a b =
     bind_action (read_tensor a) (\<lambda>av.
     bind_action (read_tensor b) (\<lambda>bv.
     bind_action (lift (matmul av (transpose_1_2 bv))) (\<lambda>y.
     alloc (Scores (to_scores y)))))"

text \<open>\<open>t.masked_fill_(m, -torch.inf)\<close>: writes into the object at \<open>t\<close>.\<close>

definition masked_fill_call :: "nat \<Rightarrow> bool tensor2 \<Rightarrow> unit action" where
  "masked_fill_call t m =
     bind_action (read_scores t) (\<lambda>tv.
     bind_action (lift (masked_fill_neg_inf tv m)) (\<lambda>y s.
     (Inr (), s\<lparr>heap := (heap s)[t := Scores y]\<rparr>)))"

text \<open>\<open>k.shape[-1]\<close>.\<close>

definition last_dim_call :: "nat \<Rightarrow> nat action" where
  "last_dim_call k = bind_action (read_tensor k) (\<lambda>kv s. (Inr (dim2 kv), s))"

text \<open>\<open>torch.softmax(t / d**0.5, dim=-1)\<close>: a new tensor.\<close>

definition softmax_scaled_call :: "nat \<Rightarrow> nat \<Rightarrow> nat action" where
  "softmax_scaled_call t d =
     bind_action (read_scores t) (\<lambda>tv.
     alloc (Tensor (softmax (div_scalar tv (sqrt (real d))))))"

text \<open>
  \<open>self.dropout(t)\<close>: the input object itself when nothing is dropped, a new tensor
  otherwise; the global generator advances when samples are drawn.
\<close>

definition dropout_call :: "real \<Rightarrow> bool \<Rightarrow> nat \<Rightarrow> nat action" where
  "dropout_call p tr t =
     bind_action (read_tensor t) (\<lambda>tv s.
       if p = 0 \<or> \<not> tr \<or> numel tv = 0 then (Inr t, s)
       else alloc (Tensor (fst (dropout p tr (rng s) tv)))
              (s\<lparr>rng := snd (dropout p tr (rng s) tv)\<rparr>))"

text \<open>\<open>a @ b\<close>: a new tensor.\<close>

definition matmul_call :: "nat \<Rightarrow> nat \<Rightarrow> nat action" where
  "matmul_call a b =
     bind_action (read_tensor a) (\<lambda>av.
     bind_action (read_tensor b) (\<lambda>bv.
     bind_action (lift (matmul av bv)) (\<lambda>y.
     alloc (Tensor y))))"

text \<open>\<open>forward(self, x)\<close> on references: it returns the address of \<open>context_vec\<close>.\<close>

definition forward_call :: "nat \<Rightarrow> nat \<Rightarrow> nat action" where
  "forward_call self x =
     bind_action (read_module self) (\<lambda>m.
     bind_action (read_tensor x) (\<lambda>xv.
     let num_tokens = dim1 xv in
     bind_action (linear_call (W_key m) x) (\<lambda>keys.
     bind_action (linear_call (W_query m) x) (\<lambda>queries.
     bind_action (linear_call (W_value m) x) (\<lambda>values.
     bind_action (matmul_transposed_call queries keys) (\<lambda>attn_scores.
     bind_action (masked_fill_call attn_scores
                    (slice2 num_tokens num_tokens (to_bool (mask_buf m)))) (\<lambda>_.
     bind_action (last_dim_call keys) (\<lambda>d.
     bind_action (softmax_scaled_call attn_scores d) (\<lambda>attn_weights.
     bind_action (dropout_call (dropout_p m) (training m) attn_weights) (\<lambda>attn_weights'.
     matmul_call attn_weights' values))))))))))"

text \<open>What the caller holds after a call: the exception, or the returned object.\<close>

definition outcome :: "(error + nat) \<times> state \<Rightarrow> error + obj option" where
  "outcome r = (case r of (Inl e, s) \<Rightarrow> Inl e | (Inr a, s) \<Rightarrow> Inr (lookup s a))"

subsection \<open>The specification's formula\<close>

text \<open>
  The formula of the specification, \<open>softmax(M(Q K\<^sup>T) / sqrt(d_out)) V\<close>, written entry
  by entry from its words, without the tensor operations above (it shares with them the
  entry of a projection and the arithmetic on scores): \<open>Q\<close>, \<open>K\<close>, \<open>V\<close> are
  the projections of \<open>x\<close>; \<open>M\<close> sets the score at \<open>(i, j)\<close> with \<open>j > i\<close> to \<open>-inf\<close>; the
  divisor is the square root of the output dimension; the softmax is taken along each
  row of the \<open>n\<close> by \<open>n\<close> matrix of one batch element.
\<close>

definition spec_masked ::
  "linear \<Rightarrow> linear \<Rightarrow> nat \<Rightarrow> real tensor3 \<Rightarrow> nat \<Rightarrow> nat \<Rightarrow> nat \<Rightarrow> score" where
  "spec_masked wq wk dout x b i j =
     (if j > i then NegInf else Fin (\<Sum>h<dout. affine wq x b i h * affine wk x b j h))"

definition spec_weights ::
  "linear \<Rightarrow> linear \<Rightarrow> nat \<Rightarrow> real tensor3 \<Rightarrow> nat \<Rightarrow> nat \<Rightarrow> nat \<Rightarrow> real" where
  "spec_weights wq wk dout x b i j =
     exp_score (div_score (spec_masked wq wk dout x b i j) (sqrt (real dout))) /
     (\<Sum>k<dim1 x. exp_score (div_score (spec_masked wq wk dout x b i k) (sqrt (real dout))))"


subsection \<open>The notebook's example\<close>

text \<open>\<open>inputs\<close>, six tokens of width three, and \<open>torch.stack((s, s), dim=0)\<close>.\<close>

definition inputs :: "real tensor2" where
  "inputs = tensor2_of 0 6 3 (\<lambda>i j.
     [[43/100, 15/100, 89/100],
      [55/100, 87/100, 66/100],
      [57/100, 85/100, 64/100],
      [22/100, 58/100, 33/100],
      [77/100, 25/100, 10/100],
      [ 5/100, 80/100, 55/100]] ! i ! j)"

definition stack_twice :: "real tensor2 \<Rightarrow> real tensor3" where
  "stack_twice s = tensor3_of 0 2 (rows s) (cols s) (\<lambda>n i k. at2 s i k)"

text \<open>Initial layer values for the examples: every weight and bias entry is 1.\<close>

definition unit_values :: init_values where
  "unit_values = \<lparr>wq0 = (\<lambda>h k. 1), wk0 = (\<lambda>h k. 1), wv0 = (\<lambda>h k. 1),
                   bq0 = (\<lambda>h. 1), bk0 = (\<lambda>h. 1), bv0 = (\<lambda>h. 1)\<rparr>"

text \<open>
  \<open>batch\<close> and \<open>ca = CausalAttention(d_in, d_out, context_length, 0.0)\<close> with
  \<open>d_in = 3\<close>, \<open>d_out = 2\<close> and \<open>context_length = batch.shape[1] = 6\<close>. The values
  drawn under \<open>torch.manual_seed(123)\<close> are not part of the source; \<open>unit_values\<close>
  stand in for them.
\<close>

definition batch :: "real tensor3" where
  "batch = stack_twice inputs"

definition ca :: causal_attention where
  "ca = projr (CausalAttention_init 3 2 6 0 False unit_values)"

text \<open>\<open>torch.full((b, n, d), v)\<close>: a tensor filled with one value.\<close>

definition full :: "nat \<Rightarrow> nat \<Rightarrow> nat \<Rightarrow> real \<Rightarrow> real tensor3" where
  "full b n d v = tensor3_of 0 b n d (\<lambda>i j k. v)"

text \<open>
  A store as a caller has it before \<open>self(x)\<close>: the module at address 0, the batch at
  address 1, and the generator.
\<close>

definition caller_state :: "causal_attention \<Rightarrow> real tensor3 \<Rightarrow> (nat \<Rightarrow> real) \<Rightarrow> state" where
  "caller_state m x u = \<lparr>heap = [Module m, Tensor x], rng = u\<rparr>"

text \<open>\<open>CausalAttention(1, 1, c, p)\<close>: the smallest module, for the examples.\<close>

definition small :: "nat \<Rightarrow> real \<Rightarrow> causal_attention" where
  "small c p = projr (CausalAttention_init 1 1 c p False unit_values)"

subsection \<open>forward over float32 values\<close>

text \<open>
  The same class once more, with tensor entries that are float32 values: a real number
  inside the float32 range, an infinity, or NaN. Arithmetic follows IEEE 754 on the
  special values and on overflow: a result larger in magnitude than the largest finite
  float32 is an infinity, \<open>0 * inf\<close> and \<open>inf - inf\<close> are NaN, and NaN propagates. What this
  model leaves out is rounding: a result inside the range is kept exact, and neither
  underflow nor the sign of zero is represented. The claims that depend on the special
  values are settled on this model.
\<close>

datatype f32 = Finite real | PlusInf | MinusInf | NaN

text \<open>The largest finite float32, \<open>(2 - 2^-23) * 2^127\<close>, and overflow.\<close>

definition f32_max :: real where
  "f32_max = (2 ^ 24 - 1) * 2 ^ 104"

definition ovf :: "real \<Rightarrow> f32" where
  "ovf r = (if f32_max < r then PlusInf else if r < - f32_max then MinusInf else Finite r)"

text \<open>\<open>torch.isfinite\<close>, and the number a finite value stands for.\<close>

fun finite32 :: "f32 \<Rightarrow> bool" where
  "finite32 (Finite r) = True"
| "finite32 v = False"

fun real_of_f32 :: "f32 \<Rightarrow> real" where
  "real_of_f32 (Finite r) = r"
| "real_of_f32 v = 0"

text \<open>A value a float32 tensor can hold: a finite entry lies inside the range.\<close>

fun in_range :: "f32 \<Rightarrow> bool" where
  "in_range (Finite r) = (\<bar>r\<bar> \<le> f32_max)"
| "in_range v = True"

fun f_add :: "f32 \<Rightarrow> f32 \<Rightarrow> f32" where
  "f_add NaN y = NaN"
| "f_add x NaN = NaN"
| "f_add PlusInf MinusInf = NaN"
| "f_add MinusInf PlusInf = NaN"
| "f_add PlusInf y = PlusInf"
| "f_add x PlusInf = PlusInf"
| "f_add MinusInf y = MinusInf"
| "f_add x MinusInf = MinusInf"
| "f_add (Finite a) (Finite b) = ovf (a + b)"

text \<open>An infinity of the given sign times a finite number.\<close>

definition inf_times :: "bool \<Rightarrow> real \<Rightarrow> f32" where
  "inf_times positive b =
     (if b = 0 then NaN else if (0 < b) = positive then PlusInf else MinusInf)"

fun f_mul :: "f32 \<Rightarrow> f32 \<Rightarrow> f32" where
  "f_mul NaN y = NaN"
| "f_mul x NaN = NaN"
| "f_mul (Finite a) (Finite b) = ovf (a * b)"
| "f_mul PlusInf (Finite b) = inf_times True b"
| "f_mul MinusInf (Finite b) = inf_times False b"
| "f_mul (Finite a) PlusInf = inf_times True a"
| "f_mul (Finite a) MinusInf = inf_times False a"
| "f_mul PlusInf PlusInf = PlusInf"
| "f_mul MinusInf MinusInf = PlusInf"
| "f_mul PlusInf MinusInf = MinusInf"
| "f_mul MinusInf PlusInf = MinusInf"

text \<open>
  Division by a scalar \<open>s \<ge> 0\<close> (here \<open>keys.shape[-1]**0.5\<close>): \<open>0 / 0\<close> is NaN, a
  non-zero number over 0 is an infinity of its sign.
\<close>

fun f_div_scalar :: "f32 \<Rightarrow> real \<Rightarrow> f32" where
  "f_div_scalar NaN s = NaN"
| "f_div_scalar PlusInf s = PlusInf"
| "f_div_scalar MinusInf s = MinusInf"
| "f_div_scalar (Finite r) s =
     (if s = 0 then (if r = 0 then NaN else if 0 < r then PlusInf else MinusInf)
      else ovf (r / s))"

text \<open>A sum of \<open>n\<close> terms, accumulated in index order from 0.\<close>

primrec f_sum :: "nat \<Rightarrow> (nat \<Rightarrow> f32) \<Rightarrow> f32" where
  "f_sum 0 f = Finite 0"
| "f_sum (Suc n) f = f_add (f_sum n f) (f n)"

record linear32 =
  weight32 :: "f32 tensor2"
  bias32 :: "(nat \<Rightarrow> f32) option"

definition Linear32 ::
  "nat \<Rightarrow> nat \<Rightarrow> bool \<Rightarrow> (nat \<Rightarrow> nat \<Rightarrow> f32) \<Rightarrow> (nat \<Rightarrow> f32) \<Rightarrow> linear32" where
  "Linear32 in_features out_features use_bias w0 b0 =
     \<lparr>weight32 = tensor2_of (Finite 0) out_features in_features w0,
      bias32 = (if use_bias then Some (\<lambda>k. if k < out_features then b0 k else Finite 0)
                else None)\<rparr>"

text \<open>The entry \<open>(b, i, h)\<close> of \<open>x @ weight.T + bias\<close>.\<close>

definition affine32 :: "linear32 \<Rightarrow> f32 tensor3 \<Rightarrow> nat \<Rightarrow> nat \<Rightarrow> nat \<Rightarrow> f32" where
  "affine32 l x b i h =
     (let s = f_sum (cols (weight32 l)) (\<lambda>k. f_mul (at3 x b i k) (at2 (weight32 l) h k))
      in case bias32 l of None \<Rightarrow> s | Some bv \<Rightarrow> f_add s (bv h))"

definition linear32_forward :: "linear32 \<Rightarrow> f32 tensor3 \<Rightarrow> error + f32 tensor3" where
  "linear32_forward l x =
     (if dim2 x \<noteq> cols (weight32 l) then Inl RuntimeError
      else Inr (tensor3_of (Finite 0) (dim0 x) (dim1 x) (rows (weight32 l)) (affine32 l x)))"

definition matmul32 :: "f32 tensor3 \<Rightarrow> f32 tensor3 \<Rightarrow> error + f32 tensor3" where
  "matmul32 a b =
     (if dim0 a \<noteq> dim0 b \<or> dim2 a \<noteq> dim1 b then Inl RuntimeError
      else Inr (tensor3_of (Finite 0) (dim0 a) (dim1 a) (dim2 b)
                  (\<lambda>n i j. f_sum (dim2 a) (\<lambda>k. f_mul (at3 a n i k) (at3 b n k j)))))"

definition masked_fill32 :: "f32 tensor3 \<Rightarrow> bool tensor2 \<Rightarrow> error + f32 tensor3" where
  "masked_fill32 t m =
     (if (rows m = dim1 t \<or> rows m = 1) \<and> (cols m = dim2 t \<or> cols m = 1)
      then Inr (tensor3_of (Finite 0) (dim0 t) (dim1 t) (dim2 t)
                  (\<lambda>b i j. if at2 m (if rows m = 1 then 0 else i) (if cols m = 1 then 0 else j)
                           then MinusInf else at3 t b i j))
      else Inl RuntimeError)"

definition div_scalar32 :: "f32 tensor3 \<Rightarrow> real \<Rightarrow> f32 tensor3" where
  "div_scalar32 t s =
     tensor3_of (Finite 0) (dim0 t) (dim1 t) (dim2 t) (\<lambda>b i j. f_div_scalar (at3 t b i j) s)"

text \<open>
  \<open>torch.softmax\<close> along a row \<open>xs\<close> of length \<open>n\<close>: torch subtracts the row maximum,
  exponentiates, and divides by the sum. The row comes out as NaN throughout when it
  holds a NaN, when it holds \<open>+inf\<close> (then \<open>inf - inf\<close> occurs), or when every entry is
  \<open>-inf\<close> (again \<open>inf - inf\<close>). Otherwise the maximum is finite, every exponential lies
  in \<open>[0, 1]\<close> and their sum in \<open>[1, n]\<close>, nothing overflows, and the quotient is the
  softmax of the finite entries, with weight 0 at each \<open>-inf\<close>.
\<close>

definition nan_row :: "nat \<Rightarrow> (nat \<Rightarrow> f32) \<Rightarrow> bool" where
  "nan_row n xs =
     ((\<exists>k<n. xs k = NaN \<or> xs k = PlusInf) \<or> (\<forall>k<n. xs k = MinusInf))"

fun exp32 :: "f32 \<Rightarrow> real" where
  "exp32 (Finite r) = exp r"
| "exp32 v = 0"

definition softmax_row :: "nat \<Rightarrow> (nat \<Rightarrow> f32) \<Rightarrow> nat \<Rightarrow> f32" where
  "softmax_row n xs j =
     (if nan_row n xs then NaN else Finite (exp32 (xs j) / (\<Sum>k<n. exp32 (xs k))))"

definition softmax32 :: "f32 tensor3 \<Rightarrow> f32 tensor3" where
  "softmax32 t =
     tensor3_of (Finite 0) (dim0 t) (dim1 t) (dim2 t)
       (\<lambda>b i j. softmax_row (dim2 t) (at3 t b i) j)"

text \<open>
  \<open>nn.Dropout(p)\<close> as above; the factor \<open>1 / (1 - p)\<close> is itself a float32, and a NaN
  weight stays NaN when it is multiplied by 0.
\<close>

definition dropout32 ::
  "real \<Rightarrow> bool \<Rightarrow> (nat \<Rightarrow> real) \<Rightarrow> f32 tensor3 \<Rightarrow> f32 tensor3 \<times> (nat \<Rightarrow> real)" where
  "dropout32 p tr u t =
     (if p = 0 \<or> \<not> tr \<or> numel t = 0 then (t, u)
      else if p = 1
      then (tensor3_of (Finite 0) (dim0 t) (dim1 t) (dim2 t)
              (\<lambda>b i j. f_mul (at3 t b i j) (Finite 0)), u)
      else (tensor3_of (Finite 0) (dim0 t) (dim1 t) (dim2 t)
              (\<lambda>b i j. f_mul (at3 t b i j)
                 (if u ((b * dim1 t + i) * dim2 t + j) < 1 - p then ovf (1 / (1 - p))
                  else Finite 0)),
            (\<lambda>k. u (k + numel t))))"

record causal_attention32 =
  d_out32 :: nat
  W_query32 :: linear32
  W_key32 :: linear32
  W_value32 :: linear32
  dropout_p32 :: real
  training32 :: bool
  mask_buf32 :: "real tensor2"

record init_values32 =
  wq32 :: "nat \<Rightarrow> nat \<Rightarrow> f32"
  wk32 :: "nat \<Rightarrow> nat \<Rightarrow> f32"
  wv32 :: "nat \<Rightarrow> nat \<Rightarrow> f32"
  bq32 :: "nat \<Rightarrow> f32"
  bk32 :: "nat \<Rightarrow> f32"
  bv32 :: "nat \<Rightarrow> f32"

definition CausalAttention32_init ::
  "nat \<Rightarrow> nat \<Rightarrow> nat \<Rightarrow> real \<Rightarrow> bool \<Rightarrow> init_values32 \<Rightarrow> error + causal_attention32" where
  "CausalAttention32_init din dout context_length dropout_prob qkv_bias iv =
     (if dropout_prob < 0 \<or> 1 < dropout_prob then Inl ValueError
      else Inr \<lparr>d_out32 = dout,
                W_query32 = Linear32 din dout qkv_bias (wq32 iv) (bq32 iv),
                W_key32 = Linear32 din dout qkv_bias (wk32 iv) (bk32 iv),
                W_value32 = Linear32 din dout qkv_bias (wv32 iv) (bv32 iv),
                dropout_p32 = dropout_prob,
                training32 = True,
                mask_buf32 = triu (ones context_length context_length) 1\<rparr>)"

definition train32 :: "bool \<Rightarrow> causal_attention32 \<Rightarrow> causal_attention32" where
  "train32 mode self = self\<lparr>training32 := mode\<rparr>"

record locals32 =
  keys32 :: "f32 tensor3"
  queries32 :: "f32 tensor3"
  vals32 :: "f32 tensor3"
  attn_scores32 :: "f32 tensor3"
  attn_softmax32 :: "f32 tensor3"
  attn_weights32 :: "f32 tensor3"
  rng_after32 :: "nat \<Rightarrow> real"
  context_vec32 :: "f32 tensor3"

definition forward32_locals ::
  "causal_attention32 \<Rightarrow> (nat \<Rightarrow> real) \<Rightarrow> f32 tensor3 \<Rightarrow> error + locals32" where
  "forward32_locals self u x =
     (let num_tokens = dim1 x in
      bind_error (linear32_forward (W_key32 self) x) (\<lambda>ks.
      bind_error (linear32_forward (W_query32 self) x) (\<lambda>qs.
      bind_error (linear32_forward (W_value32 self) x) (\<lambda>vs.
      bind_error (matmul32 qs (transpose_1_2 ks)) (\<lambda>sc.
      bind_error (masked_fill32 sc
                    (slice2 num_tokens num_tokens (to_bool (mask_buf32 self)))) (\<lambda>masked.
      let sm = softmax32 (div_scalar32 masked (sqrt (real (dim2 ks))));
          dropped = fst (dropout32 (dropout_p32 self) (training32 self) u sm);
          u' = snd (dropout32 (dropout_p32 self) (training32 self) u sm)
      in bind_error (matmul32 dropped vs) (\<lambda>cv.
         Inr \<lparr>keys32 = ks, queries32 = qs, vals32 = vs, attn_scores32 = masked,
              attn_softmax32 = sm, attn_weights32 = dropped, rng_after32 = u',
              context_vec32 = cv\<rparr>)))))))"

definition forward32 ::
  "causal_attention32 \<Rightarrow> (nat \<Rightarrow> real) \<Rightarrow> f32 tensor3 \<Rightarrow> error + f32 tensor3" where
  "forward32 self u x = bind_error (forward32_locals self u x) (\<lambda>l. Inr (context_vec32 l))"

text \<open>
  The entries of \<open>attn_scores\<close> after the fill and of the softmax output, for a call within
  the context length, in closed form (lemma \<open>forward32_locals_fields\<close>).
\<close>

definition scores32 ::
  "linear32 \<Rightarrow> linear32 \<Rightarrow> nat \<Rightarrow> f32 tensor3 \<Rightarrow> nat \<Rightarrow> nat \<Rightarrow> nat \<Rightarrow> f32" where
  "scores32 wq wk dout x b i j =
     (if i < j then MinusInf
      else f_sum dout (\<lambda>h. f_mul (affine32 wq x b i h) (affine32 wk x b j h)))"

definition weights32 ::
  "linear32 \<Rightarrow> linear32 \<Rightarrow> nat \<Rightarrow> f32 tensor3 \<Rightarrow> nat \<Rightarrow> nat \<Rightarrow> nat \<Rightarrow> f32" where
  "weights32 wq wk dout x b i j =
     softmax_row (dim1 x)
       (\<lambda>k. f_div_scalar (scores32 wq wk dout x b i k) (sqrt (real dout))) j"

text \<open>Examples: layers whose every weight is 1, with no bias, and small batches.\<close>

definition unit_values32 :: init_values32 where
  "unit_values32 = \<lparr>wq32 = (\<lambda>h k. Finite 1), wk32 = (\<lambda>h k. Finite 1),
                     wv32 = (\<lambda>h k. Finite 1),
                     bq32 = (\<lambda>h. Finite 1), bk32 = (\<lambda>h. Finite 1), bv32 = (\<lambda>h. Finite 1)\<rparr>"

definition small32 :: "nat \<Rightarrow> nat \<Rightarrow> nat \<Rightarrow> real \<Rightarrow> causal_attention32" where
  "small32 din dout c p = projr (CausalAttention32_init din dout c p False unit_values32)"

text \<open>A batch of one sequence of \<open>n\<close> tokens of width \<open>d\<close>: the first token holds \<open>a\<close> in
  every entry, the later tokens hold \<open>v\<close>.\<close>

definition tokens32 :: "nat \<Rightarrow> nat \<Rightarrow> real \<Rightarrow> real \<Rightarrow> f32 tensor3" where
  "tokens32 n d a v = tensor3_of (Finite 0) 1 n d (\<lambda>b j k. if j = 0 then Finite a else Finite v)"

section \<open>Lemmas on the operations\<close>

lemma tensor3_of_sel [simp]:
  "dim0 (tensor3_of z b n d f) = b"
  "dim1 (tensor3_of z b n d f) = n"
  "dim2 (tensor3_of z b n d f) = d"
  "at3 (tensor3_of z b n d f) i j k = (if i < b \<and> j < n \<and> k < d then f i j k else z)"
  by (simp_all add: tensor3_of_def)

lemma tensor2_of_sel [simp]:
  "rows (tensor2_of z r c f) = r"
  "cols (tensor2_of z r c f) = c"
  "at2 (tensor2_of z r c f) i j = (if i < r \<and> j < c then f i j else z)"
  by (simp_all add: tensor2_of_def)

lemma tensor3_of_cong:
  "(\<And>i j k. i < b \<Longrightarrow> j < n \<Longrightarrow> k < d \<Longrightarrow> f i j k = g i j k) \<Longrightarrow>
   tensor3_of z b n d f = tensor3_of z b n d g"
  by (auto simp: tensor3_of_def fun_eq_iff)

lemma bind_error_simps [simp]:
  "bind_error (Inl e) f = Inl e"
  "bind_error (Inr a) f = f a"
  by (simp_all add: bind_error_def)

lemma Linear_sel [simp]:
  "rows (weight (Linear i h qb w0 b0)) = h"
  "cols (weight (Linear i h qb w0 b0)) = i"
  by (simp_all add: Linear_def)

lemma init_Inr:
  assumes "CausalAttention_init din dout c p qb iv = Inr m"
  shows "d_out m = dout"
    and "W_query m = Linear din dout qb (wq0 iv) (bq0 iv)"
    and "W_key m = Linear din dout qb (wk0 iv) (bk0 iv)"
    and "W_value m = Linear din dout qb (wv0 iv) (bv0 iv)"
    and "dropout_p m = p" and "training m = True"
    and "mask_buf m = triu (ones c c) 1"
    and "0 \<le> p" and "p \<le> 1"
  using assms by (auto simp: CausalAttention_init_def split: if_splits)

lemma train_sel [simp]:
  "d_out (train t m) = d_out m"
  "W_query (train t m) = W_query m"
  "W_key (train t m) = W_key m"
  "W_value (train t m) = W_value m"
  "dropout_p (train t m) = dropout_p m"
  "training (train t m) = t"
  "mask_buf (train t m) = mask_buf m"
  by (simp_all add: train_def)

lemma causal_mask_slice:
  assumes "n \<le> c"
  shows "rows (slice2 n n (to_bool (triu (ones c c) 1))) = n"
    and "cols (slice2 n n (to_bool (triu (ones c c) 1))) = n"
    and "i < n \<Longrightarrow> j < n \<Longrightarrow> at2 (slice2 n n (to_bool (triu (ones c c) 1))) i j = (i < j)"
  using assms by (auto simp: slice2_def to_bool_def triu_def ones_def)

lemma causal_mask_slice_big:
  assumes "c < n"
  shows "rows (slice2 n n (to_bool (triu (ones c c) 1))) = c"
    and "cols (slice2 n n (to_bool (triu (ones c c) 1))) = c"
    and "at2 (slice2 n n (to_bool (triu (ones c c) 1))) 0 0 = False"
  using assms by (auto simp: slice2_def to_bool_def triu_def ones_def)

lemma linear_forward_Linear:
  "dim2 x = din \<Longrightarrow>
   linear_forward (Linear din dout qb w0 b0) x =
     Inr (tensor3_of 0 (dim0 x) (dim1 x) dout (affine (Linear din dout qb w0 b0) x))"
  by (simp add: linear_forward_def)

lemma linear_forward_Linear_err:
  "dim2 x \<noteq> din \<Longrightarrow> linear_forward (Linear din dout qb w0 b0) x = Inl RuntimeError"
  by (simp add: linear_forward_def)

lemma matmul_transpose_of:
  "matmul (tensor3_of 0 B n d f) (transpose_1_2 (tensor3_of 0 B n' d g)) =
     Inr (tensor3_of 0 B n n' (\<lambda>b i j. \<Sum>k<d. f b i k * g b j k))"
  unfolding matmul_def transpose_1_2_def
  by (auto intro!: tensor3_of_cong sum.cong)

lemma to_scores_of:
  "to_scores (tensor3_of 0 B n m f) = tensor3_of (Fin 0) B n m (\<lambda>b i j. Fin (f b i j))"
  unfolding to_scores_def by (auto intro!: tensor3_of_cong)

lemma masked_fill_causal:
  assumes "n \<le> c"
  shows "masked_fill_neg_inf (tensor3_of (Fin 0) B n n f) (slice2 n n (to_bool (triu (ones c c) 1))) =
     Inr (tensor3_of (Fin 0) B n n (\<lambda>b i j. if i < j then NegInf else f b i j))"
proof -
  have idx: "(if n = 1 then 0 else i) = i" if "i < n" for i using that by auto
  show ?thesis
    unfolding masked_fill_neg_inf_def
    by (auto simp: causal_mask_slice[OF assms] idx intro!: tensor3_of_cong)
qed

lemma masked_fill_one:
  assumes "c < n" "c = 1"
  shows "masked_fill_neg_inf (tensor3_of (Fin 0) B n n f) (slice2 n n (to_bool (triu (ones c c) 1))) =
     Inr (tensor3_of (Fin 0) B n n f)"
proof -
  let ?m = "slice2 n n (to_bool (triu (ones c c) 1))"
  have m: "rows ?m = c" "cols ?m = c" "at2 ?m 0 0 = False"
    using causal_mask_slice_big[OF assms(1)] by simp_all
  have ifs: "(if c = 1 then 0 else i) = (0::nat)" for i
    using assms(2) by simp
  have "masked_fill_neg_inf (tensor3_of (Fin 0) B n n f) ?m =
      Inr (tensor3_of (Fin 0) B n n (\<lambda>b i j. at3 (tensor3_of (Fin 0) B n n f) b i j))"
    unfolding masked_fill_neg_inf_def m ifs using assms(2) by simp
  also have "tensor3_of (Fin 0) B n n (\<lambda>b i j. at3 (tensor3_of (Fin 0) B n n f) b i j) =
      tensor3_of (Fin 0) B n n f"
    by (rule tensor3_of_cong) simp
  finally show ?thesis .
qed

lemma masked_fill_too_long:
  assumes "c < n" "c \<noteq> 1"
  shows "masked_fill_neg_inf (tensor3_of (Fin 0) B n n f) (slice2 n n (to_bool (triu (ones c c) 1))) =
     Inl RuntimeError"
  unfolding masked_fill_neg_inf_def
  using assms by (auto simp: causal_mask_slice_big[OF assms(1)])

lemma div_scalar_of:
  "div_scalar (tensor3_of z B n m f) s = tensor3_of (Fin 0) B n m (\<lambda>b i j. div_score (f b i j) s)"
  unfolding div_scalar_def by (auto intro!: tensor3_of_cong)

lemma softmax_of:
  "softmax (tensor3_of z B n m f) =
     tensor3_of 0 B n m (\<lambda>b i j. exp_score (f b i j) / (\<Sum>k<m. exp_score (f b i k)))"
  unfolding softmax_def by (auto intro!: tensor3_of_cong sum.cong arg_cong2[where f="(/)"])

lemma matmul_of_right:
  "dim0 w = B \<Longrightarrow> dim2 w = n \<Longrightarrow>
   matmul w (tensor3_of 0 B n d v) =
     Inr (tensor3_of 0 B (dim1 w) d (\<lambda>b i h. \<Sum>j<n. at3 w b i j * v b j h))"
  unfolding matmul_def by (auto intro!: tensor3_of_cong sum.cong)

lemma dropout_dims [simp]:
  "dim0 (fst (dropout p t u w)) = dim0 w"
  "dim1 (fst (dropout p t u w)) = dim1 w"
  "dim2 (fst (dropout p t u w)) = dim2 w"
  by (simp_all add: dropout_def)

lemma dropout_inert:
  "p = 0 \<or> \<not> t \<Longrightarrow> dropout p t u w = (w, u)"
  by (auto simp: dropout_def)

section \<open>forward on a module built by the constructor\<close>

lemma softmax_scaled_causal:
  "softmax (div_scalar (tensor3_of (Fin 0) B (dim1 x) (dim1 x) (spec_masked wq wk dout x))
             (sqrt (real dout)))
   = tensor3_of 0 B (dim1 x) (dim1 x) (spec_weights wq wk dout x)"
  unfolding div_scalar_of softmax_of
  by (rule tensor3_of_cong) (simp add: spec_weights_def)

lemma forward_locals_built:
  assumes init: "CausalAttention_init din dout c p qb iv = Inr m"
    and w: "dim2 x = din" and n: "dim1 x \<le> c"
  shows "forward_locals (train t m) u x =
     Inr \<lparr>keys = tensor3_of 0 (dim0 x) (dim1 x) dout (affine (W_key m) x),
          queries = tensor3_of 0 (dim0 x) (dim1 x) dout (affine (W_query m) x),
          vals = tensor3_of 0 (dim0 x) (dim1 x) dout (affine (W_value m) x),
          attn_scores = tensor3_of (Fin 0) (dim0 x) (dim1 x) (dim1 x)
                          (spec_masked (W_query m) (W_key m) dout x),
          attn_softmax = tensor3_of 0 (dim0 x) (dim1 x) (dim1 x)
                              (spec_weights (W_query m) (W_key m) dout x),
          attn_weights = fst (dropout p t u (tensor3_of 0 (dim0 x) (dim1 x) (dim1 x)
                              (spec_weights (W_query m) (W_key m) dout x))),
          rng_after = snd (dropout p t u (tensor3_of 0 (dim0 x) (dim1 x) (dim1 x)
                              (spec_weights (W_query m) (W_key m) dout x))),
          context_vec = tensor3_of 0 (dim0 x) (dim1 x) dout
             (\<lambda>b i h. \<Sum>j<dim1 x. at3 (fst (dropout p t u (tensor3_of 0 (dim0 x) (dim1 x) (dim1 x)
                              (spec_weights (W_query m) (W_key m) dout x)))) b i j
                          * affine (W_value m) x b j h)\<rparr>"
proof -
  note f = init_Inr[OF init]
  have sc: "tensor3_of (Fin 0) (dim0 x) (dim1 x) (dim1 x)
             (\<lambda>b i j. if i < j then NegInf
                       else Fin (\<Sum>h<dout. affine wq x b i h * affine wk x b j h))
      = tensor3_of (Fin 0) (dim0 x) (dim1 x) (dim1 x) (spec_masked wq wk dout x)" for wq wk
    by (rule tensor3_of_cong) (simp add: spec_masked_def)
  show ?thesis
    unfolding forward_locals_def
    by (simp add: f(2-7) linear_forward_Linear[OF w] matmul_transpose_of to_scores_of
        masked_fill_causal[OF n] softmax_scaled_causal sc matmul_of_right Let_def)
qed

lemma exp_score_nonneg: "0 \<le> exp_score s"
  by (cases s) simp_all

lemma spec_denominator_pos:
  assumes "i < dim1 x"
  shows "0 < (\<Sum>k<dim1 x. exp_score (div_score (spec_masked wq wk dout x b i k) s))"
proof (rule sum_pos2[where i = i])
  show "0 < exp_score (div_score (spec_masked wq wk dout x b i i) s)"
    by (simp add: spec_masked_def)
qed (use assms in \<open>auto simp: exp_score_nonneg\<close>)

lemma spec_weights_row_sum:
  assumes "i < dim1 x"
  shows "(\<Sum>j<dim1 x. spec_weights wq wk dout x b i j) = 1"
  using spec_denominator_pos[OF assms, of wq wk dout b "sqrt (real dout)"]
  by (simp add: spec_weights_def sum_divide_distrib[symmetric])

lemma spec_weights_future:
  "i < j \<Longrightarrow> spec_weights wq wk dout x b i j = 0"
  by (simp add: spec_weights_def spec_masked_def)

lemma ca_init: "CausalAttention_init 3 2 6 0 False unit_values = Inr ca"
  by (simp add: ca_def CausalAttention_init_def)

lemma batch_dims [simp]: "dim0 batch = 2" "dim1 batch = 6" "dim2 batch = 3"
  by (simp_all add: batch_def stack_twice_def inputs_def)

lemma forward_built:
  assumes init: "CausalAttention_init din dout c p qb iv = Inr m"
    and w: "dim2 x = din" and n: "dim1 x \<le> c"
  shows "forward (train t m) u x =
     Inr (tensor3_of 0 (dim0 x) (dim1 x) dout
            (\<lambda>b i h. \<Sum>j<dim1 x. at3 (fst (dropout p t u (tensor3_of 0 (dim0 x) (dim1 x) (dim1 x)
                              (spec_weights (W_query m) (W_key m) dout x)))) b i j
                          * affine (W_value m) x b j h))"
  by (simp add: forward_def forward_locals_built[OF assms])

lemma small_init:
  "0 \<le> p \<Longrightarrow> p \<le> 1 \<Longrightarrow> CausalAttention_init 1 1 c p False unit_values = Inr (small c p)"
  by (simp add: small_def CausalAttention_init_def)

lemma train_True_built:
  "CausalAttention_init din dout c p qb iv = Inr m \<Longrightarrow> train True m = m"
  by (auto simp: CausalAttention_init_def train_def split: if_splits)

lemma full_sel [simp]:
  "dim0 (full b n d v) = b" "dim1 (full b n d v) = n" "dim2 (full b n d v) = d"
  "at3 (full b n d v) i j k = (if i < b \<and> j < n \<and> k < d then v else 0)"
  by (simp_all add: full_def)

lemma affine_small_full:
  "0 \<le> p \<Longrightarrow> p \<le> 1 \<Longrightarrow> b < B \<Longrightarrow> i < n \<Longrightarrow>
   affine (W_query (small c p)) (full B n 1 v) b i 0 = v \<and>
   affine (W_key (small c p)) (full B n 1 v) b i 0 = v \<and>
   affine (W_value (small c p)) (full B n 1 v) b i 0 = v"
  by (simp add: init_Inr(2-4)[OF small_init] affine_def Linear_def unit_values_def)




lemma spec_weights_first_row:
  assumes "0 < dim1 x"
  shows "spec_weights wq wk dout x b 0 j = (if j = 0 then 1 else 0)"
proof -
  let ?e = "\<lambda>k. exp_score (div_score (spec_masked wq wk dout x b 0 k) (sqrt (real dout)))"
  have e: "?e k = (if k = 0 then ?e 0 else 0)" for k
    by (simp add: spec_masked_def)
  have "(\<Sum>k<dim1 x. ?e k) = (\<Sum>k<dim1 x. if k = 0 then ?e 0 else 0)"
    by (rule sum.cong[OF refl]) (subst e, rule refl)
  also have "\<dots> = ?e 0"
    using assms by (simp add: sum.delta')
  finally have d: "(\<Sum>k<dim1 x. ?e k) = ?e 0" .
  have pos: "?e 0 \<noteq> 0"
    by (simp add: spec_masked_def)
  show ?thesis
    unfolding spec_weights_def d using pos by (simp add: spec_masked_def)
qed

lemma forward_locals_fields:
  assumes init: "CausalAttention_init din dout c p qb iv = Inr m"
    and w: "dim2 x = din" and n: "dim1 x \<le> c"
  shows "\<exists>l.
    forward_locals (train t m) u x = Inr l \<and>
    forward (train t m) u x = Inr (context_vec l) \<and>
    vals l = tensor3_of 0 (dim0 x) (dim1 x) dout (affine (W_value m) x) \<and>
    linear_forward (W_value m) x = Inr (vals l) \<and>
    attn_scores l = tensor3_of (Fin 0) (dim0 x) (dim1 x) (dim1 x)
                       (spec_masked (W_query m) (W_key m) dout x) \<and>
    attn_softmax l = tensor3_of 0 (dim0 x) (dim1 x) (dim1 x)
                        (spec_weights (W_query m) (W_key m) dout x) \<and>
    attn_weights l = fst (dropout p t u (attn_softmax l)) \<and>
    rng_after l = snd (dropout p t u (attn_softmax l)) \<and>
    context_vec l = tensor3_of 0 (dim0 x) (dim1 x) dout
             (\<lambda>b i h. \<Sum>j<dim1 x. at3 (attn_weights l) b i j * affine (W_value m) x b j h)"
  by (rule exI[of _ "projr (forward_locals (train t m) u x)"])
     (simp add: forward_locals_built[OF assms] forward_def init_Inr(4)[OF init]
        linear_forward_Linear[OF w])

lemma affine_stack_twice:
  "affine l (stack_twice s) (Suc 0) i h = affine l (stack_twice s) 0 i h"
  by (simp add: affine_def stack_twice_def)

lemma spec_masked_stack_twice:
  "spec_masked wq wk dout (stack_twice s) (Suc 0) i j =
   spec_masked wq wk dout (stack_twice s) 0 i j"
  by (simp add: spec_masked_def affine_stack_twice)

lemma spec_weights_stack_twice:
  "spec_weights wq wk dout (stack_twice s) (Suc 0) i j =
   spec_weights wq wk dout (stack_twice s) 0 i j"
  by (simp add: spec_weights_def spec_masked_stack_twice)

lemma inputs_dims: "rows inputs = 6" "cols inputs = 3"
  by (simp_all add: inputs_def)

lemma stack_twice_dims [simp]:
  "dim0 (stack_twice s) = 2" "dim1 (stack_twice s) = rows s" "dim2 (stack_twice s) = cols s"
  by (simp_all add: stack_twice_def)

text \<open>
  C6, as amended. With dropout inert (probability 0, or evaluation mode), for every
  sequence s of the configured width and of length at most the context length, forward
  on the batch of two copies of s succeeds and yields the same context vectors for both
  batch elements; in particular for the notebook's batch of two copies of the 6-token,
  3-dimensional sequence with input_dim = 3 and output_dim = 2.
\<close>

theorem batch_independence:
  assumes "CausalAttention_init din dout c p qb iv = Inr m"
    and "cols s = din" and "rows s \<le> c" and "p = 0 \<or> \<not> t"
  shows "\<exists>y. forward (train t m) u (stack_twice s) = Inr y \<and>
             (\<forall>i h. at3 y 0 i h = at3 y 1 i h)"
proof -
  have w: "dim2 (stack_twice s) = din" and n: "dim1 (stack_twice s) \<le> c"
    using assms(2,3) by (simp_all add: stack_twice_def)
  note F = forward_built[OF assms(1) w n, of t u, unfolded dropout_inert[OF assms(4)] fst_conv]
  have "at3 (projr (forward (train t m) u (stack_twice s))) 0 i h =
        at3 (projr (forward (train t m) u (stack_twice s))) 1 i h" for i h
    unfolding F
    by (simp add: spec_weights_stack_twice affine_stack_twice)
  then show ?thesis
    using F by simp
qed

theorem batch_independence_witness:
  "\<exists>y. forward (train True ca) (\<lambda>k. 0) batch = Inr y \<and>
       (\<forall>i h. at3 y 0 i h = at3 y 1 i h)"
  using batch_independence[OF ca_init, of inputs True "\<lambda>k. 0"]
  by (simp add: batch_def inputs_dims)

theorem batch_independence_counterexample:
  "at3 (projr (forward (small 1 (1/2)) (\<lambda>k. if k = 0 then 0 else 3/4)
                 (stack_twice (tensor2_of 0 1 1 (\<lambda>i j. 1))))) 0 0 0 \<noteq>
   at3 (projr (forward (small 1 (1/2)) (\<lambda>k. if k = 0 then 0 else 3/4)
                 (stack_twice (tensor2_of 0 1 1 (\<lambda>i j. 1))))) 1 0 0"
proof -
  have i: "CausalAttention_init 1 1 1 (1/2) False unit_values = Inr (small 1 (1/2))"
    by (rule small_init) simp_all
  have s: "stack_twice (tensor2_of 0 1 1 (\<lambda>i j. 1)) = full 2 1 1 1"
    unfolding stack_twice_def full_def by simp (rule tensor3_of_cong, simp)
  have a: "at3 (projr (forward (small 1 (1/2)) (\<lambda>k. if k = 0 then 0 else 3/4) (full 2 1 1 1))) 0 0 0 = 2"
    using forward_built[OF i, of "full 2 1 1 1" True "\<lambda>k. if k = 0 then 0 else 3/4",
        unfolded train_True_built[OF i]]
      affine_small_full[of "1/2" 0 2 0 1 1 1]
    by (simp add: dropout_def numel_def spec_weights_first_row)
  have b: "at3 (projr (forward (small 1 (1/2)) (\<lambda>k. if k = 0 then 0 else 3/4) (full 2 1 1 1))) 1 0 0 = 0"
    using forward_built[OF i, of "full 2 1 1 1" True "\<lambda>k. if k = 0 then 0 else 3/4",
        unfolded train_True_built[OF i]]
    by (simp add: dropout_def numel_def)
  show ?thesis unfolding s using a b by simp
qed

lemma forward_width_err:
  assumes init: "CausalAttention_init din dout c p qb iv = Inr m"
    and w: "dim2 x \<noteq> din"
  shows "forward (train t m) u x = Inl RuntimeError"
  unfolding forward_def forward_locals_def
  by (simp add: init_Inr(2-7)[OF init] linear_forward_Linear_err[OF w])

lemma forward_too_long:
  assumes init: "CausalAttention_init din dout c p qb iv = Inr m"
    and w: "dim2 x = din" and n: "c < dim1 x" "c \<noteq> 1"
  shows "forward (train t m) u x = Inl RuntimeError"
  unfolding forward_def forward_locals_def
  by (simp add: init_Inr(2-7)[OF init] linear_forward_Linear[OF w] matmul_transpose_of
      to_scores_of masked_fill_too_long[OF n])

lemma forward_context_one:
  assumes init: "CausalAttention_init din dout c p qb iv = Inr m"
    and w: "dim2 x = din" and n: "c < dim1 x" "c = 1"
  shows "\<exists>y. forward (train t m) u x = Inr y"
  unfolding forward_def forward_locals_def
  by (simp add: init_Inr(2-7)[OF init] linear_forward_Linear[OF w] matmul_transpose_of
      to_scores_of masked_fill_one[OF n] div_scalar_of softmax_of matmul_of_right Let_def)

text \<open>
  The outcome of forward on a module built by the constructor, away from a context length
  of 1 with a longer sequence: RuntimeError when the input width is not the configured
  one or the sequence is longer than the context length, a tensor otherwise.
\<close>

lemma forward_outcome_unless_context_one:
  assumes "CausalAttention_init din dout c p qb iv = Inr m"
    and "c \<noteq> 1 \<or> dim1 x \<le> 1"
  shows "if dim2 x \<noteq> din \<or> c < dim1 x
         then forward (train t m) u x = Inl RuntimeError
         else (\<exists>y. forward (train t m) u x = Inr y)"
proof (cases "dim2 x = din")
  case False
  then show ?thesis by (simp add: forward_width_err[OF assms(1)])
next
  case w: True
  show ?thesis
  proof (cases "dim1 x \<le> c")
    case True
    then show ?thesis using w by (simp add: forward_built[OF assms(1) w True])
  next
    case False
    then have n: "c < dim1 x" by simp
    then have "c \<noteq> 1" using assms(2) by auto
    then show ?thesis
      using w n by (simp add: forward_too_long[OF assms(1) w n])
  qed
qed

lemma forward_locals_context_one_weights:
  assumes init: "CausalAttention_init din dout c p qb iv = Inr m"
    and w: "dim2 x = din" and n: "c < dim1 x" "c = 1"
  shows "\<exists>l. forward_locals (train t m) u x = Inr l \<and>
           forward (train t m) u x = Inr (context_vec l) \<and>
           dim1 (context_vec l) = dim1 x \<and>
           attn_scores l = tensor3_of (Fin 0) (dim0 x) (dim1 x) (dim1 x)
             (\<lambda>b i j. Fin (\<Sum>h<dout. affine (W_query m) x b i h * affine (W_key m) x b j h)) \<and>
           attn_softmax l = softmax (div_scalar (attn_scores l) (sqrt (real dout))) \<and>
           attn_weights l = fst (dropout p t u (attn_softmax l))"
  unfolding forward_def forward_locals_def
  by (simp add: init_Inr(2-7)[OF init] linear_forward_Linear[OF w] matmul_transpose_of
      to_scores_of masked_fill_one[OF n] div_scalar_of softmax_of matmul_of_right Let_def)

text \<open>
  C7. The claim fails on the code. forward has no check of the sequence length: a
  sequence longer than the context length fails only because masked_fill_ cannot expand
  the sliced mask, and a 1-by-1 mask does expand. CausalAttention(1, 1, 1, 0.0), whose
  maximum length is 1, accepts a batch of shape (1, 2, 1): the input has the configured
  width, its length 2 exceeds the context length 1, forward returns a tensor with two
  positions, and nothing is masked: position 0 gives the weight 1/2 to the token after
  it.
\<close>

theorem forward_accepts_beyond_context_one:
  "dim2 (full 1 2 1 1) = 1 \<and> 1 < dim1 (full 1 2 1 1) \<and>
   \<not> isl (forward (small 1 0) (\<lambda>k. 0) (full 1 2 1 1)) \<and>
   dim1 (projr (forward (small 1 0) (\<lambda>k. 0) (full 1 2 1 1))) = 2 \<and>
   at3 (attn_weights (projr (forward_locals (small 1 0) (\<lambda>k. 0) (full 1 2 1 1)))) 0 0 1 = 1 / 2"
proof -
  have i: "CausalAttention_init 1 1 1 0 False unit_values = Inr (small 1 0)"
    by (rule small_init) simp_all
  let ?x = "full 1 2 1 1"
  obtain l where l: "forward_locals (small 1 0) (\<lambda>k. 0) ?x = Inr l"
    "forward (small 1 0) (\<lambda>k. 0) ?x = Inr (context_vec l)"
    "dim1 (context_vec l) = dim1 ?x"
    "attn_scores l = tensor3_of (Fin 0) (dim0 ?x) (dim1 ?x) (dim1 ?x)
       (\<lambda>b i j. Fin (\<Sum>h<1. affine (W_query (small 1 0)) ?x b i h *
                              affine (W_key (small 1 0)) ?x b j h))"
    "attn_softmax l = softmax (div_scalar (attn_scores l) (sqrt (real 1)))"
    "attn_weights l = fst (dropout 0 True (\<lambda>k. 0) (attn_softmax l))"
    using forward_locals_context_one_weights[OF i, of ?x True "\<lambda>k. 0",
        unfolded train_True_built[OF i]] by auto
  have a: "affine (W_query (small 1 0)) ?x 0 j 0 = 1" "affine (W_key (small 1 0)) ?x 0 j 0 = 1"
    if "j < 2" for j
    using affine_small_full[of 0 0 1 j 2 1 1] that by simp_all
  have "at3 (attn_weights l) 0 0 1 = 1 / 2"
    using a[of 0] a[of 1]
    by (simp add: l(6) l(5) l(4) dropout_inert div_scalar_of softmax_of eval_nat_numeral
        lessThan_Suc)
  then show ?thesis
    using l(1,2,3) by simp
qed




lemma affine_agree:
  "(\<And>k. k < cols (weight l) \<Longrightarrow> at3 x' b j k = at3 x b j k) \<Longrightarrow>
   affine l x' b j h = affine l x b j h"
  by (simp add: affine_def)

lemma dropout_at_zero:
  "w b i j = 0 \<Longrightarrow> at3 (fst (dropout p t u (tensor3_of 0 B n n' w))) b i j = 0"
  by (simp add: dropout_def)

lemma dropout_at_agree:
  "w' b i j = w b i j \<Longrightarrow>
   at3 (fst (dropout p t u (tensor3_of 0 B n n' w'))) b i j =
   at3 (fst (dropout p t u (tensor3_of 0 B n n' w))) b i j"
  by (simp add: dropout_def numel_def)

lemma forward_dropout_zero:
  "dropout_p self = 0 \<Longrightarrow> forward self u1 x = forward self u2 x"
  unfolding forward_def forward_locals_def
  by (simp add: dropout_def bind_error_def Let_def split: sum.splits)

lemma lookup_alloc:
  "lookup (snd (alloc v s)) a = (if a = length (heap s) then Some v else lookup s a)"
  by (auto simp: lookup_def alloc_def nth_append)

lemma forward_call_frame:
  "take (length (heap s)) (heap (snd (forward_call self x s))) = heap s"
  unfolding forward_call_def linear_call_def matmul_transposed_call_def masked_fill_call_def
    last_dim_call_def softmax_scaled_call_def dropout_call_def matmul_call_def
    bind_action_def read_module_def read_tensor_def read_scores_def lift_def alloc_def
    lookup_def Let_def
  by (simp add: nth_append split: sum.splits option.splits obj.splits prod.splits if_splits)

lemma lookup_SomeD:
  "lookup s a = Some v \<Longrightarrow> a < length (heap s) \<and> heap s ! a = v"
  by (auto simp: lookup_def split: if_splits)

lemma forward_call_outcome:
  assumes "lookup s self = Some (Module m)" and "lookup s x = Some (Tensor xv)"
  shows "outcome (forward_call self x s) =
           (case forward m (rng s) xv of Inl e \<Rightarrow> Inl e | Inr y \<Rightarrow> Inr (Some (Tensor y)))"
proof -
  note a = lookup_SomeD[OF assms(1)] lookup_SomeD[OF assms(2)]
  show ?thesis
    unfolding forward_call_def linear_call_def matmul_transposed_call_def masked_fill_call_def
      last_dim_call_def softmax_scaled_call_def dropout_call_def matmul_call_def
      bind_action_def read_module_def read_tensor_def read_scores_def lift_def alloc_def
      lookup_def Let_def outcome_def forward_def forward_locals_def bind_error_def
    using a
    by (simp add: nth_append dropout_def split: sum.splits)
qed

lemma forward_call_lookup:
  assumes "lookup s a = Some v"
  shows "lookup (snd (forward_call self x s)) a = Some v"
proof -
  let ?h = "heap (snd (forward_call self x s))"
  have t: "take (length (heap s)) ?h = heap s"
    by (rule forward_call_frame)
  have a: "a < length (heap s)" "heap s ! a = v"
    using lookup_SomeD[OF assms] by simp_all
  have len: "length (heap s) \<le> length ?h"
    using arg_cong[OF t, of length] by simp
  have "?h ! a = take (length (heap s)) ?h ! a"
    using a(1) by simp
  then show ?thesis
    using a len by (simp add: t lookup_def)
qed

lemma forward_call_no_tensor:
  assumes "\<And>xv. lookup s x \<noteq> Some (Tensor xv)"
  shows "forward_call self x s = (Inl TypeError, s)"
  using assms
  unfolding forward_call_def bind_action_def read_module_def read_tensor_def
  by (auto split: option.splits obj.splits)

lemma forward_call_rng:
  assumes "lookup s self = Some (Module m)" and "lookup s x = Some (Tensor xv)"
    and "forward_locals m (rng s) xv = Inr l"
  shows "rng (snd (forward_call self x s)) = rng_after l"
proof -
  note a = lookup_SomeD[OF assms(1)] lookup_SomeD[OF assms(2)]
  show ?thesis
    using a assms(3)
    unfolding forward_call_def linear_call_def matmul_transposed_call_def masked_fill_call_def
      last_dim_call_def softmax_scaled_call_def dropout_call_def matmul_call_def
      bind_action_def read_module_def read_tensor_def read_scores_def lift_def alloc_def
      lookup_def Let_def forward_locals_def bind_error_def
    by (auto simp add: nth_append dropout_def split: sum.splits)
qed

lemma forward_call_rng_inert:
  assumes "lookup s self = Some (Module m)" and "dropout_p m = 0 \<or> \<not> training m"
  shows "rng (snd (forward_call self x s)) = rng s"
proof (cases "\<exists>xv. lookup s x = Some (Tensor xv)")
  case False
  then show ?thesis by (simp add: forward_call_no_tensor)
next
  case True
  then obtain xv where x: "lookup s x = Some (Tensor xv)" by blast
  note a = lookup_SomeD[OF assms(1)] lookup_SomeD[OF x]
  show ?thesis
    using a assms(2)
    unfolding forward_call_def linear_call_def matmul_transposed_call_def masked_fill_call_def
      last_dim_call_def softmax_scaled_call_def dropout_call_def matmul_call_def
      bind_action_def read_module_def read_tensor_def read_scores_def lift_def alloc_def
      lookup_def Let_def
    by (auto simp add: nth_append split: sum.splits)
qed

lemma caller_state_lookup [simp]:
  "lookup (caller_state m x u) 0 = Some (Module m)"
  "lookup (caller_state m x u) (Suc 0) = Some (Tensor x)"
  "rng (caller_state m x u) = u"
  by (simp_all add: caller_state_def lookup_def)

text \<open>
  C5. Determinism. With dropout probability 0 the result of forward does not depend on
  the state of the random generator, and a second invocation on the same module and the
  same input, made after the first, has the same outcome as the first: the same
  exception, or a tensor equal to the one the first call returned.
\<close>

theorem forward_deterministic:
  assumes "lookup s self = Some (Module m)" and "dropout_p m = 0"
  shows "forward m u1 xv = forward m u2 xv \<and>
         outcome (forward_call self x (snd (forward_call self x s))) =
         outcome (forward_call self x s)"
proof (cases "\<exists>t. lookup s x = Some (Tensor t)")
  case False
  then show ?thesis
    by (simp add: forward_call_no_tensor forward_dropout_zero[OF assms(2), of u1 xv u2])
next
  case True
  then obtain t where x: "lookup s x = Some (Tensor t)" by blast
  let ?s1 = "snd (forward_call self x s)"
  have m1: "lookup ?s1 self = Some (Module m)" and x1: "lookup ?s1 x = Some (Tensor t)"
    using forward_call_lookup[OF assms(1)] forward_call_lookup[OF x] by simp_all
  have "forward m (rng ?s1) t = forward m (rng s) t"
    by (rule forward_dropout_zero[OF assms(2)])
  then show ?thesis
    by (simp add: forward_call_outcome[OF m1 x1] forward_call_outcome[OF assms(1) x]
        forward_dropout_zero[OF assms(2), of u1 xv u2])
qed

theorem forward_deterministic_witness:
  "forward ca (\<lambda>k. 0) batch = forward ca (\<lambda>k. 3/4) batch \<and>
   outcome (forward_call 0 1 (snd (forward_call 0 1 (caller_state ca batch (\<lambda>k. 0))))) =
   outcome (forward_call 0 1 (caller_state ca batch (\<lambda>k. 0)))"
  using forward_deterministic[of "caller_state ca batch (\<lambda>k. 0)" 0 ca "\<lambda>k. 0" batch "\<lambda>k. 3/4" 1]
    init_Inr(5)[OF ca_init]
  by simp

text \<open>
  C8, as amended. A call to forward leaves every object that existed before the call
  unchanged, among them the input batch and the module with its three weight sets and
  its mask: the in-place fill writes into a tensor the call itself created. With dropout
  inert (probability 0, or evaluation mode) the random generator is unchanged as well, so
  the only caller-visible effect is the returned tensor.
\<close>

theorem forward_call_frame_condition:
  "(\<forall>a v. lookup s a = Some v \<longrightarrow> lookup (snd (forward_call self x s)) a = Some v) \<and>
   (\<forall>m. lookup s self = Some (Module m) \<longrightarrow> dropout_p m = 0 \<or> \<not> training m \<longrightarrow>
        rng (snd (forward_call self x s)) = rng s)"
  using forward_call_lookup forward_call_rng_inert by blast

theorem forward_call_frame_condition_witness:
  "lookup (snd (forward_call 0 1 (caller_state ca batch (\<lambda>k. 0)))) 0 = Some (Module ca) \<and>
   lookup (snd (forward_call 0 1 (caller_state ca batch (\<lambda>k. 0)))) 1 = Some (Tensor batch) \<and>
   rng (snd (forward_call 0 1 (caller_state ca batch (\<lambda>k. 0)))) = (\<lambda>k. 0)"
  using forward_call_frame_condition[of "caller_state ca batch (\<lambda>k. 0)" 0 1]
    init_Inr(5)[OF ca_init]
  by simp

theorem forward_call_frame_condition_counterexample:
  "rng (snd (forward_call 0 1
          (caller_state (small 1 (1/2)) (full 1 1 1 1) (\<lambda>k. if k = 0 then 0 else 3/4)))) \<noteq>
   rng (caller_state (small 1 (1/2)) (full 1 1 1 1) (\<lambda>k. if k = 0 then 0 else 3/4))"
proof -
  let ?u = "\<lambda>k::nat. if k = 0 then 0 else (3/4::real)"
  let ?s = "caller_state (small 1 (1/2)) (full 1 1 1 1) ?u"
  have i: "CausalAttention_init 1 1 1 (1/2) False unit_values = Inr (small 1 (1/2))"
    by (rule small_init) simp_all
  obtain l where l: "forward_locals (small 1 (1/2)) ?u (full 1 1 1 1) = Inr l"
    "attn_softmax l = tensor3_of 0 1 1 1 (spec_weights (W_query (small 1 (1/2)))
                        (W_key (small 1 (1/2))) 1 (full 1 1 1 1))"
    "rng_after l = snd (dropout (1/2) True ?u (attn_softmax l))"
    using forward_locals_fields[OF i, of "full 1 1 1 1" True ?u,
        unfolded train_True_built[OF i]]
    by auto
  have l': "forward_locals (small 1 (1/2)) (rng ?s) (full 1 1 1 1) = Inr l"
    using l(1) by simp
  have "rng (snd (forward_call 0 1 ?s)) = rng_after l"
    by (rule forward_call_rng[OF _ _ l']) simp_all
  then have "rng (snd (forward_call 0 1 ?s)) 0 = 3/4"
    by (simp add: l(3) l(2) dropout_def numel_def)
  then show ?thesis
    by (auto simp: fun_eq_iff)
qed

section \<open>Every softmax row of forward has a finite entry\<close>

lemma forward_locals_context_one:
  assumes init: "CausalAttention_init din dout c p qb iv = Inr m"
    and w: "dim2 x = din" and n: "c < dim1 x" "c = 1"
  shows "\<exists>l. forward_locals (train t m) u x = Inr l \<and>
           attn_scores l = tensor3_of (Fin 0) (dim0 x) (dim1 x) (dim1 x)
             (\<lambda>b i j. Fin (\<Sum>h<dout. affine (W_query m) x b i h * affine (W_key m) x b j h))"
  unfolding forward_locals_def
  by (simp add: init_Inr(2-7)[OF init] linear_forward_Linear[OF w] matmul_transpose_of
      to_scores_of masked_fill_one[OF n] div_scalar_of softmax_of matmul_of_right Let_def)

lemma forward_locals_Inr_forward:
  "forward_locals self u x = Inr l \<Longrightarrow> forward self u x = Inr (context_vec l)"
  by (simp add: forward_def)

lemma softmax_denominator_pos:
  assumes init: "CausalAttention_init din dout c p qb iv = Inr m"
    and l: "forward_locals (train t m) u x = Inr l"
    and b: "b < dim0 x" and i: "i < dim1 x"
  shows "0 < (\<Sum>k<dim1 x. exp_score (div_score (at3 (attn_scores l) b i k) (sqrt (real dout))))"
proof -
  note ok = forward_locals_Inr_forward[OF l]
  have w: "dim2 x = din"
    using forward_width_err[OF init, of x t u] ok by auto
  show ?thesis
  proof (cases "dim1 x \<le> c")
    case True
    have "attn_scores l = tensor3_of (Fin 0) (dim0 x) (dim1 x) (dim1 x)
                            (spec_masked (W_query m) (W_key m) dout x)"
      using forward_locals_fields[OF init w True, of t u] l by auto
    then have "(\<Sum>k<dim1 x. exp_score (div_score (at3 (attn_scores l) b i k) (sqrt (real dout))))
        = (\<Sum>k<dim1 x. exp_score (div_score (spec_masked (W_query m) (W_key m) dout x b i k)
                                     (sqrt (real dout))))"
      using b i by (intro sum.cong) auto
    then show ?thesis
      using spec_denominator_pos[OF i] by simp
  next
    case False
    then have n: "c < dim1 x" by simp
    have c: "c = 1"
      using forward_too_long[OF init w n, of t u] ok by auto
    have sc: "attn_scores l = tensor3_of (Fin 0) (dim0 x) (dim1 x) (dim1 x)
             (\<lambda>b i j. Fin (\<Sum>h<dout. affine (W_query m) x b i h * affine (W_key m) x b j h))"
      using forward_locals_context_one[OF init w n c, of t u] l by auto
    show ?thesis
    proof (rule sum_pos)
      show "{..<dim1 x} \<noteq> {}" using i by auto
    qed (use b i in \<open>auto simp: sc\<close>)
  qed
qed

section \<open>forward over float32 values: lemmas\<close>

lemma f32_max_ge_one: "1 \<le> f32_max"
  by (simp add: f32_max_def)

lemma ovf_in_range [simp]: "in_range (ovf r)"
  by (auto simp: ovf_def)

lemma ovf_id: "\<bar>r\<bar> \<le> f32_max \<Longrightarrow> ovf r = Finite r"
  by (auto simp: ovf_def)

lemma ovf_zero [simp]: "ovf 0 = Finite 0"
  using f32_max_ge_one by (simp add: ovf_def)

lemma f_add_in_range [simp]: "in_range (f_add x y)"
  by (cases x; cases y) simp_all

lemma f_sum_in_range [simp]: "in_range (f_sum n f)"
  using f32_max_ge_one by (cases n) simp_all

lemma f_sum_cong:
  "(\<And>k. k < n \<Longrightarrow> f k = g k) \<Longrightarrow> f_sum n f = f_sum n g"
  by (induction n) simp_all

lemma f_add_zero_left: "in_range v \<Longrightarrow> f_add (Finite 0) v = v"
  by (cases v) (simp_all add: ovf_id)

lemma f_add_zero_right: "in_range v \<Longrightarrow> f_add v (Finite 0) = v"
  by (cases v) (simp_all add: ovf_id)

lemma f_mul_one_left: "in_range v \<Longrightarrow> f_mul (Finite 1) v = v"
  by (cases v) (simp_all add: ovf_id inf_times_def)

lemma f_mul_zero_finite: "finite32 v \<Longrightarrow> f_mul (Finite 0) v = Finite 0"
  by (cases v) simp_all

lemma f_mul_NaN [simp]: "f_mul NaN v = NaN"
  by simp

lemma affine32_in_range [simp]: "in_range (affine32 l x b i h)"
  by (simp add: affine32_def Let_def split: option.splits)

lemma nan_row_cong:
  "(\<And>k. k < n \<Longrightarrow> xs k = ys k) \<Longrightarrow> nan_row n xs = nan_row n ys"
  by (auto simp: nan_row_def)

lemma softmax_row_cong:
  assumes "\<And>k. k < n \<Longrightarrow> xs k = ys k" and "j < n"
  shows "softmax_row n xs j = softmax_row n ys j"
proof -
  have "(\<Sum>k<n. exp32 (xs k)) = (\<Sum>k<n. exp32 (ys k))"
    by (rule sum.cong) (simp_all add: assms(1))
  then show ?thesis
    by (simp add: softmax_row_def nan_row_cong[of n xs ys, OF assms(1)] assms)
qed

lemma Linear32_sel [simp]:
  "rows (weight32 (Linear32 i h qb w0 b0)) = h"
  "cols (weight32 (Linear32 i h qb w0 b0)) = i"
  by (simp_all add: Linear32_def)

lemma init32_Inr:
  assumes "CausalAttention32_init din dout c p qb iv = Inr m"
  shows "d_out32 m = dout"
    and "W_query32 m = Linear32 din dout qb (wq32 iv) (bq32 iv)"
    and "W_key32 m = Linear32 din dout qb (wk32 iv) (bk32 iv)"
    and "W_value32 m = Linear32 din dout qb (wv32 iv) (bv32 iv)"
    and "dropout_p32 m = p" and "training32 m = True"
    and "mask_buf32 m = triu (ones c c) 1"
    and "0 \<le> p" and "p \<le> 1"
  using assms by (auto simp: CausalAttention32_init_def split: if_splits)

lemma train32_sel [simp]:
  "d_out32 (train32 t m) = d_out32 m"
  "W_query32 (train32 t m) = W_query32 m"
  "W_key32 (train32 t m) = W_key32 m"
  "W_value32 (train32 t m) = W_value32 m"
  "dropout_p32 (train32 t m) = dropout_p32 m"
  "training32 (train32 t m) = t"
  "mask_buf32 (train32 t m) = mask_buf32 m"
  by (simp_all add: train32_def)

lemma linear32_forward_Linear32:
  "dim2 x = din \<Longrightarrow>
   linear32_forward (Linear32 din dout qb w0 b0) x =
     Inr (tensor3_of (Finite 0) (dim0 x) (dim1 x) dout (affine32 (Linear32 din dout qb w0 b0) x))"
  by (simp add: linear32_forward_def)

lemma matmul32_transpose_of:
  "matmul32 (tensor3_of z B n d f) (transpose_1_2 (tensor3_of z' B n' d g)) =
     Inr (tensor3_of (Finite 0) B n n' (\<lambda>b i j. f_sum d (\<lambda>k. f_mul (f b i k) (g b j k))))"
  unfolding matmul32_def transpose_1_2_def
  by (auto intro!: tensor3_of_cong f_sum_cong)

lemma masked_fill32_causal:
  assumes "n \<le> c"
  shows "masked_fill32 (tensor3_of (Finite 0) B n n f) (slice2 n n (to_bool (triu (ones c c) 1))) =
     Inr (tensor3_of (Finite 0) B n n (\<lambda>b i j. if i < j then MinusInf else f b i j))"
proof -
  have idx: "(if n = 1 then 0 else i) = i" if "i < n" for i using that by auto
  show ?thesis
    unfolding masked_fill32_def
    by (auto simp: causal_mask_slice[OF assms] idx intro!: tensor3_of_cong)
qed

lemma div_scalar32_of:
  "div_scalar32 (tensor3_of z B n m f) s =
     tensor3_of (Finite 0) B n m (\<lambda>b i j. f_div_scalar (f b i j) s)"
  unfolding div_scalar32_def by (auto intro!: tensor3_of_cong)

lemma softmax32_of:
  "softmax32 (tensor3_of z B n m f) =
     tensor3_of (Finite 0) B n m (\<lambda>b i j. softmax_row m (f b i) j)"
  unfolding softmax32_def
  by (auto intro!: tensor3_of_cong softmax_row_cong)

lemma matmul32_of_right:
  "dim0 w = B \<Longrightarrow> dim2 w = n \<Longrightarrow>
   matmul32 w (tensor3_of z B n d v) =
     Inr (tensor3_of (Finite 0) B (dim1 w) d
            (\<lambda>b i h. f_sum n (\<lambda>j. f_mul (at3 w b i j) (v b j h))))"
  unfolding matmul32_def by (auto intro!: tensor3_of_cong f_sum_cong)

lemma dropout32_dims [simp]:
  "dim0 (fst (dropout32 p t u w)) = dim0 w"
  "dim1 (fst (dropout32 p t u w)) = dim1 w"
  "dim2 (fst (dropout32 p t u w)) = dim2 w"
  by (simp_all add: dropout32_def)

lemma dropout32_inert:
  "p = 0 \<or> \<not> t \<Longrightarrow> dropout32 p t u w = (w, u)"
  by (auto simp: dropout32_def)

lemma forward32_locals_fields:
  assumes init: "CausalAttention32_init din dout c p qb iv = Inr m"
    and w: "dim2 x = din" and n: "dim1 x \<le> c"
  shows "\<exists>l.
    forward32_locals (train32 t m) u x = Inr l \<and>
    forward32 (train32 t m) u x = Inr (context_vec32 l) \<and>
    vals32 l = tensor3_of (Finite 0) (dim0 x) (dim1 x) dout (affine32 (W_value32 m) x) \<and>
    linear32_forward (W_value32 m) x = Inr (vals32 l) \<and>
    attn_scores32 l = tensor3_of (Finite 0) (dim0 x) (dim1 x) (dim1 x)
                       (scores32 (W_query32 m) (W_key32 m) dout x) \<and>
    attn_softmax32 l = tensor3_of (Finite 0) (dim0 x) (dim1 x) (dim1 x)
                        (weights32 (W_query32 m) (W_key32 m) dout x) \<and>
    attn_weights32 l = fst (dropout32 p t u (attn_softmax32 l)) \<and>
    rng_after32 l = snd (dropout32 p t u (attn_softmax32 l)) \<and>
    context_vec32 l = tensor3_of (Finite 0) (dim0 x) (dim1 x) dout
       (\<lambda>b i h. f_sum (dim1 x) (\<lambda>j. f_mul (at3 (attn_weights32 l) b i j)
                                         (affine32 (W_value32 m) x b j h)))"
proof -
  note f = init32_Inr[OF init]
  have sc: "tensor3_of (Finite 0) (dim0 x) (dim1 x) (dim1 x)
             (\<lambda>b i j. if i < j then MinusInf
                       else f_sum dout (\<lambda>h. f_mul (affine32 wq x b i h) (affine32 wk x b j h)))
      = tensor3_of (Finite 0) (dim0 x) (dim1 x) (dim1 x) (scores32 wq wk dout x)" for wq wk
    by (rule tensor3_of_cong) (simp add: scores32_def)
  have sm: "softmax32 (div_scalar32 (tensor3_of (Finite 0) (dim0 x) (dim1 x) (dim1 x)
              (scores32 wq wk dout x)) (sqrt (real dout)))
      = tensor3_of (Finite 0) (dim0 x) (dim1 x) (dim1 x) (weights32 wq wk dout x)" for wq wk
    unfolding div_scalar32_of softmax32_of
    by (rule tensor3_of_cong) (auto simp: weights32_def intro!: softmax_row_cong)
  have L: "forward32_locals (train32 t m) u x =
     Inr \<lparr>keys32 = tensor3_of (Finite 0) (dim0 x) (dim1 x) dout (affine32 (W_key32 m) x),
          queries32 = tensor3_of (Finite 0) (dim0 x) (dim1 x) dout (affine32 (W_query32 m) x),
          vals32 = tensor3_of (Finite 0) (dim0 x) (dim1 x) dout (affine32 (W_value32 m) x),
          attn_scores32 = tensor3_of (Finite 0) (dim0 x) (dim1 x) (dim1 x)
                          (scores32 (W_query32 m) (W_key32 m) dout x),
          attn_softmax32 = tensor3_of (Finite 0) (dim0 x) (dim1 x) (dim1 x)
                              (weights32 (W_query32 m) (W_key32 m) dout x),
          attn_weights32 = fst (dropout32 p t u (tensor3_of (Finite 0) (dim0 x) (dim1 x) (dim1 x)
                              (weights32 (W_query32 m) (W_key32 m) dout x))),
          rng_after32 = snd (dropout32 p t u (tensor3_of (Finite 0) (dim0 x) (dim1 x) (dim1 x)
                              (weights32 (W_query32 m) (W_key32 m) dout x))),
          context_vec32 = tensor3_of (Finite 0) (dim0 x) (dim1 x) dout
             (\<lambda>b i h. f_sum (dim1 x) (\<lambda>j. f_mul
                 (at3 (fst (dropout32 p t u (tensor3_of (Finite 0) (dim0 x) (dim1 x) (dim1 x)
                              (weights32 (W_query32 m) (W_key32 m) dout x)))) b i j)
                 (affine32 (W_value32 m) x b j h)))\<rparr>"
    unfolding forward32_locals_def
    by (simp add: f(2-7) linear32_forward_Linear32[OF w] matmul32_transpose_of
        masked_fill32_causal[OF n] sc sm matmul32_of_right Let_def)
  show ?thesis
    by (rule exI[of _ "projr (forward32_locals (train32 t m) u x)"])
       (simp add: L forward32_def f(4) linear32_forward_Linear32[OF w])
qed

lemma finite32_iff: "finite32 v = (\<exists>r. v = Finite r)"
  by (cases v) simp_all

lemma scores32_in_range [simp]: "in_range (scores32 wq wk dout x b i j)"
  by (simp add: scores32_def)

lemma f_div_scalar_finite:
  assumes "finite32 v" and "in_range v" and "1 \<le> s"
  shows "f_div_scalar v s = Finite (real_of_f32 v / s)"
proof -
  obtain r where v: "v = Finite r" using assms(1) by (auto simp: finite32_iff)
  have "\<bar>r / s\<bar> \<le> \<bar>r\<bar>"
    using assms(3) mult_right_mono[of 1 s "\<bar>r\<bar>"] by (simp add: field_simps)
  then have "\<bar>r / s\<bar> \<le> f32_max"
    using assms(2) v by simp
  then show ?thesis
    using assms(3) v by (simp add: ovf_id)
qed

text \<open>A row of scaled scores whose allowed entries are finite.\<close>

lemma weights32_finite_row:
  assumes d: "0 < dout" and i: "i < dim1 x"
    and fin: "\<And>k. k \<le> i \<Longrightarrow> finite32 (scores32 wq wk dout x b i k)"
  shows "weights32 wq wk dout x b i j =
           Finite (exp32 (f_div_scalar (scores32 wq wk dout x b i j) (sqrt (real dout))) /
                   (\<Sum>k<dim1 x. exp32 (f_div_scalar (scores32 wq wk dout x b i k)
                                                    (sqrt (real dout)))))"
    and "0 < (\<Sum>k<dim1 x. exp32 (f_div_scalar (scores32 wq wk dout x b i k)
                                                    (sqrt (real dout))))"
    and "i < j \<Longrightarrow> weights32 wq wk dout x b i j = Finite 0"
proof -
  let ?s = "sqrt (real dout)"
  let ?x = "\<lambda>k. f_div_scalar (scores32 wq wk dout x b i k) ?s"
  have s: "1 \<le> ?s" using d by simp
  have low: "?x k = Finite (real_of_f32 (scores32 wq wk dout x b i k) / ?s)" if "k \<le> i" for k
    by (rule f_div_scalar_finite[OF fin[OF that] _ s]) simp
  have high: "?x k = MinusInf" if "i < k" for k
    using that by (simp add: scores32_def)
  have cases: "(\<exists>r. ?x k = Finite r) \<or> ?x k = MinusInf" for k
    using low[of k] high[of k] by (cases "k \<le> i") auto
  have a: "\<not> (\<exists>k<dim1 x. ?x k = NaN \<or> ?x k = PlusInf)"
  proof
    assume "\<exists>k<dim1 x. ?x k = NaN \<or> ?x k = PlusInf"
    then obtain k where "?x k = NaN \<or> ?x k = PlusInf" by blast
    then show False using cases[of k] by auto
  qed
  have b: "\<not> (\<forall>k<dim1 x. ?x k = MinusInf)"
    using i low[of i] by auto
  have not_nan: "\<not> nan_row (dim1 x) ?x"
    unfolding nan_row_def using a b by blast
  show w: "weights32 wq wk dout x b i j =
           Finite (exp32 (?x j) / (\<Sum>k<dim1 x. exp32 (?x k)))"
    by (simp add: weights32_def softmax_row_def not_nan)
  have nonneg: "0 \<le> exp32 v" for v by (cases v) simp_all
  show "0 < (\<Sum>k<dim1 x. exp32 (?x k))"
  proof (rule sum_pos2[where i = i])
    show "0 < exp32 (?x i)" by (simp add: low)
  qed (use i in \<open>auto simp: nonneg\<close>)
  show "weights32 wq wk dout x b i j = Finite 0" if "i < j"
    by (simp add: w high[OF that])
qed

lemma small32_init:
  "0 \<le> p \<Longrightarrow> p \<le> 1 \<Longrightarrow>
   CausalAttention32_init din dout c p False unit_values32 = Inr (small32 din dout c p)"
  by (simp add: small32_def CausalAttention32_init_def)

lemma train32_True_built:
  "CausalAttention32_init din dout c p qb iv = Inr m \<Longrightarrow> train32 True m = m"
  by (auto simp: CausalAttention32_init_def train32_def split: if_splits)

lemma tokens32_dims [simp]:
  "dim0 (tokens32 n d a v) = 1" "dim1 (tokens32 n d a v) = n" "dim2 (tokens32 n d a v) = d"
  by (simp_all add: tokens32_def)

text \<open>The projections of the example batches: a sum of \<open>din\<close> equal entries.\<close>

lemma affine32_small_tokens:
  assumes "0 \<le> p" and "p \<le> 1" and "j < n"
  shows "affine32 (W_query32 (small32 din dout c p)) (tokens32 n din a v) 0 j h =
           f_sum din (\<lambda>k. if h < dout then ovf (if j = 0 then a else v) else Finite 0)"
    and "affine32 (W_key32 (small32 din dout c p)) (tokens32 n din a v) 0 j h =
           f_sum din (\<lambda>k. if h < dout then ovf (if j = 0 then a else v) else Finite 0)"
    and "affine32 (W_value32 (small32 din dout c p)) (tokens32 n din a v) 0 j h =
           f_sum din (\<lambda>k. if h < dout then ovf (if j = 0 then a else v) else Finite 0)"
  using assms
  by (auto simp: init32_Inr(2-4)[OF small32_init] affine32_def Linear32_def unit_values32_def
      tokens32_def intro!: f_sum_cong)

lemma small32_fields:
  fixes din dout c p u n a v
  defines "l \<equiv> projr (forward32_locals (small32 din dout c p) u (tokens32 n din a v))"
  assumes "0 \<le> p" and "p \<le> 1" and "n \<le> c"
  shows "forward32_locals (small32 din dout c p) u (tokens32 n din a v) = Inr l"
    and "forward32 (small32 din dout c p) u (tokens32 n din a v) = Inr (context_vec32 l)"
    and "vals32 l = tensor3_of (Finite 0) 1 n dout
                 (affine32 (W_value32 (small32 din dout c p)) (tokens32 n din a v))"
    and "linear32_forward (W_value32 (small32 din dout c p)) (tokens32 n din a v) =
           Inr (vals32 l)"
    and "attn_scores32 l = tensor3_of (Finite 0) 1 n n
       (scores32 (W_query32 (small32 din dout c p)) (W_key32 (small32 din dout c p)) dout
          (tokens32 n din a v))"
    and "attn_softmax32 l = tensor3_of (Finite 0) 1 n n
       (weights32 (W_query32 (small32 din dout c p)) (W_key32 (small32 din dout c p)) dout
          (tokens32 n din a v))"
    and "attn_weights32 l = fst (dropout32 p True u (attn_softmax32 l))"
    and "context_vec32 l = tensor3_of (Finite 0) 1 n dout
       (\<lambda>b i h. f_sum n (\<lambda>j. f_mul (at3 (attn_weights32 l) b i j)
          (affine32 (W_value32 (small32 din dout c p)) (tokens32 n din a v) b j h)))"
proof -
  note i = small32_init[OF assms(2,3), of din dout c]
  have "\<exists>l'. forward32_locals (small32 din dout c p) u (tokens32 n din a v) = Inr l' \<and>
    forward32 (small32 din dout c p) u (tokens32 n din a v) = Inr (context_vec32 l') \<and>
    vals32 l' = tensor3_of (Finite 0) 1 n dout
                 (affine32 (W_value32 (small32 din dout c p)) (tokens32 n din a v)) \<and>
    linear32_forward (W_value32 (small32 din dout c p)) (tokens32 n din a v) = Inr (vals32 l') \<and>
    attn_scores32 l' = tensor3_of (Finite 0) 1 n n
       (scores32 (W_query32 (small32 din dout c p)) (W_key32 (small32 din dout c p)) dout
          (tokens32 n din a v)) \<and>
    attn_softmax32 l' = tensor3_of (Finite 0) 1 n n
       (weights32 (W_query32 (small32 din dout c p)) (W_key32 (small32 din dout c p)) dout
          (tokens32 n din a v)) \<and>
    attn_weights32 l' = fst (dropout32 p True u (attn_softmax32 l')) \<and>
    rng_after32 l' = snd (dropout32 p True u (attn_softmax32 l')) \<and>
    context_vec32 l' = tensor3_of (Finite 0) 1 n dout
       (\<lambda>b i h. f_sum n (\<lambda>j. f_mul (at3 (attn_weights32 l') b i j)
          (affine32 (W_value32 (small32 din dout c p)) (tokens32 n din a v) b j h)))"
    using forward32_locals_fields[OF i, of "tokens32 n din a v" True u,
        unfolded train32_True_built[OF i]] assms(4)
    by simp
  then obtain l' where l': "forward32_locals (small32 din dout c p) u (tokens32 n din a v) = Inr l'"
    and rest: "forward32 (small32 din dout c p) u (tokens32 n din a v) = Inr (context_vec32 l')"
    "vals32 l' = tensor3_of (Finite 0) 1 n dout
                 (affine32 (W_value32 (small32 din dout c p)) (tokens32 n din a v))"
    "linear32_forward (W_value32 (small32 din dout c p)) (tokens32 n din a v) = Inr (vals32 l')"
    "attn_scores32 l' = tensor3_of (Finite 0) 1 n n
       (scores32 (W_query32 (small32 din dout c p)) (W_key32 (small32 din dout c p)) dout
          (tokens32 n din a v))"
    "attn_softmax32 l' = tensor3_of (Finite 0) 1 n n
       (weights32 (W_query32 (small32 din dout c p)) (W_key32 (small32 din dout c p)) dout
          (tokens32 n din a v))"
    "attn_weights32 l' = fst (dropout32 p True u (attn_softmax32 l'))"
    "context_vec32 l' = tensor3_of (Finite 0) 1 n dout
       (\<lambda>b i h. f_sum n (\<lambda>j. f_mul (at3 (attn_weights32 l') b i j)
          (affine32 (W_value32 (small32 din dout c p)) (tokens32 n din a v) b j h)))"
    by (elim exE conjE)
  have eq: "l = l'" by (simp add: l_def l')
  show "forward32_locals (small32 din dout c p) u (tokens32 n din a v) = Inr l"
    and "forward32 (small32 din dout c p) u (tokens32 n din a v) = Inr (context_vec32 l)"
    and "vals32 l = tensor3_of (Finite 0) 1 n dout
                 (affine32 (W_value32 (small32 din dout c p)) (tokens32 n din a v))"
    and "linear32_forward (W_value32 (small32 din dout c p)) (tokens32 n din a v) =
           Inr (vals32 l)"
    and "attn_scores32 l = tensor3_of (Finite 0) 1 n n
       (scores32 (W_query32 (small32 din dout c p)) (W_key32 (small32 din dout c p)) dout
          (tokens32 n din a v))"
    and "attn_softmax32 l = tensor3_of (Finite 0) 1 n n
       (weights32 (W_query32 (small32 din dout c p)) (W_key32 (small32 din dout c p)) dout
          (tokens32 n din a v))"
    and "attn_weights32 l = fst (dropout32 p True u (attn_softmax32 l))"
    and "context_vec32 l = tensor3_of (Finite 0) 1 n dout
       (\<lambda>b i h. f_sum n (\<lambda>j. f_mul (at3 (attn_weights32 l) b i j)
          (affine32 (W_value32 (small32 din dout c p)) (tokens32 n din a v) b j h)))"
    unfolding eq using l' rest by simp_all
qed

text \<open>
  C2, as amended. On a module built by the constructor with a positive output dimension
  and a batch of the configured width and of length at most the context length, forward
  succeeds; and for every row i of the attention-weight matrix that torch.softmax
  returns, if the scores of the row at the allowed positions (columns j \<le> i) are finite
  (no overflow to an infinity, no NaN), then the entries of the row are finite and sum
  to 1, and every entry at a strictly future position (column j > i) is exactly 0.
\<close>

theorem attention_rows_stochastic:
  assumes "CausalAttention32_init din dout c p qb iv = Inr m"
    and "0 < dout" and "dim2 x = din" and "dim1 x \<le> c"
    and "b < dim0 x" and "i < dim1 x"
  shows "\<exists>l. forward32_locals (train32 t m) u x = Inr l \<and>
           ((\<forall>j\<le>i. finite32 (at3 (attn_scores32 l) b i j)) \<longrightarrow>
              (\<forall>j<dim1 x. finite32 (at3 (attn_softmax32 l) b i j)) \<and>
              (\<Sum>j<dim1 x. real_of_f32 (at3 (attn_softmax32 l) b i j)) = 1 \<and>
              (\<forall>j<dim1 x. i < j \<longrightarrow> at3 (attn_softmax32 l) b i j = Finite 0))"
proof -
  let ?wq = "W_query32 m" and ?wk = "W_key32 m"
  obtain l where l: "forward32_locals (train32 t m) u x = Inr l"
    "attn_scores32 l = tensor3_of (Finite 0) (dim0 x) (dim1 x) (dim1 x)
                         (scores32 ?wq ?wk dout x)"
    "attn_softmax32 l = tensor3_of (Finite 0) (dim0 x) (dim1 x) (dim1 x)
                          (weights32 ?wq ?wk dout x)"
    using forward32_locals_fields[OF assms(1,3,4), of t u] by blast
  have "(\<forall>j<dim1 x. finite32 (at3 (attn_softmax32 l) b i j)) \<and>
        (\<Sum>j<dim1 x. real_of_f32 (at3 (attn_softmax32 l) b i j)) = 1 \<and>
        (\<forall>j<dim1 x. i < j \<longrightarrow> at3 (attn_softmax32 l) b i j = Finite 0)"
    if fin: "\<forall>j\<le>i. finite32 (at3 (attn_scores32 l) b i j)"
  proof -
    have f: "finite32 (scores32 ?wq ?wk dout x b i k)" if "k \<le> i" for k
      using fin that assms(5,6) by (auto simp: l(2))
    note W = weights32_finite_row[OF assms(2,6) f]
    let ?e = "\<lambda>k. exp32 (f_div_scalar (scores32 ?wq ?wk dout x b i k) (sqrt (real dout)))"
    have at: "at3 (attn_softmax32 l) b i j = Finite (?e j / (\<Sum>k<dim1 x. ?e k))"
      if "j < dim1 x" for j
      using that assms(5,6) by (simp add: l(3) W(1))
    have "(\<Sum>j<dim1 x. real_of_f32 (at3 (attn_softmax32 l) b i j)) =
          (\<Sum>j<dim1 x. ?e j / (\<Sum>k<dim1 x. ?e k))"
      by (rule sum.cong) (simp_all add: at)
    also have "\<dots> = 1"
      using W(2) by (simp add: sum_divide_distrib[symmetric])
    finally have one: "(\<Sum>j<dim1 x. real_of_f32 (at3 (attn_softmax32 l) b i j)) = 1" .
    have zero: "at3 (attn_softmax32 l) b i j = Finite 0" if "j < dim1 x" "i < j" for j
      using that assms(5,6) by (simp add: l(3) W(3))
    show ?thesis
      using one zero by (simp add: at)
  qed
  then show ?thesis
    using l(1) by blast
qed

theorem attention_rows_stochastic_witness:
  "\<exists>l. forward32_locals (train32 True (small32 1 1 2 0)) (\<lambda>k. 0) (tokens32 2 1 1 1) = Inr l \<and>
       (\<Sum>j<2. real_of_f32 (at3 (attn_softmax32 l) 0 0 j)) = 1 \<and>
       at3 (attn_softmax32 l) 0 0 1 = Finite 0"
proof -
  have i: "CausalAttention32_init 1 1 2 0 False unit_values32 = Inr (small32 1 1 2 0)"
    by (rule small32_init) simp_all
  let ?x = "tokens32 2 1 1 1"
  obtain l where l: "forward32_locals (train32 True (small32 1 1 2 0)) (\<lambda>k. 0) ?x = Inr l"
    and imp: "(\<forall>j\<le>0. finite32 (at3 (attn_scores32 l) 0 0 j)) \<longrightarrow>
              (\<forall>j<dim1 ?x. finite32 (at3 (attn_softmax32 l) 0 0 j)) \<and>
              (\<Sum>j<dim1 ?x. real_of_f32 (at3 (attn_softmax32 l) 0 0 j)) = 1 \<and>
              (\<forall>j<dim1 ?x. 0 < j \<longrightarrow> at3 (attn_softmax32 l) 0 0 j = Finite 0)"
    using attention_rows_stochastic[OF i, of ?x 0 0 True "\<lambda>k. 0"] by auto
  obtain l' where l': "forward32_locals (train32 True (small32 1 1 2 0)) (\<lambda>k. 0) ?x = Inr l'"
    "attn_scores32 l' = tensor3_of (Finite 0) (dim0 ?x) (dim1 ?x) (dim1 ?x)
       (scores32 (W_query32 (small32 1 1 2 0)) (W_key32 (small32 1 1 2 0)) 1 ?x)"
    using forward32_locals_fields[OF i, of ?x True "\<lambda>k. 0"] by auto
  have "l' = l" using l l'(1) by simp
  then have "finite32 (at3 (attn_scores32 l) 0 0 0)"
    using l'(2) affine32_small_tokens[where p = 0 and j = 0 and n = 2 and din = 1 and dout = 1 and c = 2 and a = 1 and v = 1 and h = 0] f32_max_ge_one
    by (simp add: scores32_def ovf_id)
  then show ?thesis
    using l imp by auto
qed

theorem attention_rows_stochastic_counterexample:
  "in_range (Finite (2 ^ 100)) \<and>
   \<not> isl (forward32_locals (small32 1 1 1 0) (\<lambda>k. 0) (tokens32 1 1 (2 ^ 100) 0)) \<and>
   at3 (attn_softmax32
         (projr (forward32_locals (small32 1 1 1 0) (\<lambda>k. 0) (tokens32 1 1 (2 ^ 100) 0))))
     0 0 0 = NaN"
proof -
  have i: "CausalAttention32_init 1 1 1 0 False unit_values32 = Inr (small32 1 1 1 0)"
    by (rule small32_init) simp_all
  let ?x = "tokens32 1 1 (2 ^ 100) 0"
  obtain l where l: "forward32_locals (small32 1 1 1 0) (\<lambda>k. 0) ?x = Inr l"
    "attn_softmax32 l = tensor3_of (Finite 0) (dim0 ?x) (dim1 ?x) (dim1 ?x)
       (weights32 (W_query32 (small32 1 1 1 0)) (W_key32 (small32 1 1 1 0)) 1 ?x)"
    using forward32_locals_fields[OF i, of ?x True "\<lambda>k. 0", unfolded train32_True_built[OF i]]
    by auto
  have r: "in_range (Finite (2 ^ 100))"
    by (simp add: f32_max_def)
  have "at3 (attn_softmax32 l) 0 0 0 = NaN"
    using affine32_small_tokens[where p = 0 and j = 0 and n = 1 and din = 1 and dout = 1 and c = 1 and a = "2 ^ 100" and v = 0 and h = 0]
    by (simp add: l(2) weights32_def scores32_def softmax_row_def nan_row_def ovf_def f32_max_def)
  then show ?thesis
    using l(1) r by simp
qed

text \<open>With output dimension 0 the divisor is 0 and the single weight is NaN as well.\<close>

lemma attention_weights_nan_at_width_zero:
  "at3 (attn_softmax32
         (projr (forward32_locals (small32 1 0 1 0) (\<lambda>k. 0) (tokens32 1 1 1 0))))
     0 0 0 = NaN"
proof -
  have i: "CausalAttention32_init 1 0 1 0 False unit_values32 = Inr (small32 1 0 1 0)"
    by (rule small32_init) simp_all
  let ?x = "tokens32 1 1 1 0"
  obtain l where l: "forward32_locals (small32 1 0 1 0) (\<lambda>k. 0) ?x = Inr l"
    "attn_softmax32 l = tensor3_of (Finite 0) (dim0 ?x) (dim1 ?x) (dim1 ?x)
       (weights32 (W_query32 (small32 1 0 1 0)) (W_key32 (small32 1 0 1 0)) 0 ?x)"
    using forward32_locals_fields[OF i, of ?x True "\<lambda>k. 0", unfolded train32_True_built[OF i]]
    by auto
  have "at3 (attn_softmax32 l) 0 0 0 = NaN"
    by (simp add: l(2) weights32_def scores32_def softmax_row_def nan_row_def)
  then show ?thesis
    using l(1) by simp
qed

lemma f_sum_one_hot:
  assumes "0 < n" and "f 0 = v" and "in_range v"
    and "\<And>j. 0 < j \<Longrightarrow> j < n \<Longrightarrow> f j = Finite 0"
  shows "f_sum n f = v"
  using assms
proof (induction n)
  case 0
  then show ?case by simp
next
  case (Suc n)
  show ?case
  proof (cases "n = 0")
    case True
    then show ?thesis using Suc.prems by (simp add: f_add_zero_left)
  next
    case False
    then have "f_sum n f = v" using Suc by simp
    moreover have "f n = Finite 0" using False Suc.prems(4)[of n] by simp
    ultimately show ?thesis using Suc.prems(3) by (simp add: f_add_zero_right)
  qed
qed

lemma weights32_first_row:
  assumes d: "0 < dout" and n: "0 < dim1 x"
    and fin: "finite32 (scores32 wq wk dout x b 0 0)"
  shows "weights32 wq wk dout x b 0 j = (if j = 0 then Finite 1 else Finite 0)"
proof -
  let ?e = "\<lambda>k. exp32 (f_div_scalar (scores32 wq wk dout x b 0 k) (sqrt (real dout)))"
  have f: "finite32 (scores32 wq wk dout x b 0 k)" if "k \<le> 0" for k
    using that fin by simp
  note W = weights32_finite_row[OF d n f]
  have e: "?e k = (if k = 0 then ?e 0 else 0)" for k
    by (simp add: scores32_def)
  have "(\<Sum>k<dim1 x. ?e k) = (\<Sum>k<dim1 x. if k = 0 then ?e 0 else 0)"
    by (rule sum.cong[OF refl]) (subst e, rule refl)
  also have "\<dots> = ?e 0"
    using n by (simp add: sum.delta')
  finally have s: "(\<Sum>k<dim1 x. ?e k) = ?e 0" .
  have pos: "?e 0 \<noteq> 0"
    using W(2) s by simp
  show ?thesis
  proof (cases "j = 0")
    case True
    then show ?thesis using W(1)[of 0] pos by (simp add: s)
  next
    case False
    then show ?thesis using W(3)[of j] by simp
  qed
qed

text \<open>
  C10, as amended. With dropout inert (probability 0, or evaluation mode) and a positive
  output dimension, for every non-empty batch of the configured width and of length at
  most the context length, forward succeeds, and for every batch element whose first
  score (the first token with itself) is finite: the first row of the attention-weight
  matrix is [1, 0, ..., 0]; and in every output column where the value projections of
  the later tokens are finite (no infinity, no NaN), the context vector at position 0
  is the value projection of the first token.
\<close>

theorem first_row_one_hot:
  assumes "CausalAttention32_init din dout c p qb iv = Inr m"
    and "0 < dout" and "dim2 x = din" and "0 < dim1 x" and "dim1 x \<le> c"
    and "p = 0 \<or> \<not> t"
  shows "\<exists>l. forward32_locals (train32 t m) u x = Inr l \<and>
           forward32 (train32 t m) u x = Inr (context_vec32 l) \<and>
           (\<forall>b<dim0 x. finite32 (at3 (attn_scores32 l) b 0 0) \<longrightarrow>
              (\<forall>j<dim1 x. at3 (attn_weights32 l) b 0 j = (if j = 0 then Finite 1 else Finite 0)) \<and>
              (\<forall>h<dout. (\<forall>j<dim1 x. 0 < j \<longrightarrow> finite32 (at3 (vals32 l) b j h)) \<longrightarrow>
                 at3 (context_vec32 l) b 0 h = at3 (vals32 l) b 0 h))"
proof -
  let ?wq = "W_query32 m" and ?wk = "W_key32 m" and ?wv = "W_value32 m"
  obtain l where l: "forward32_locals (train32 t m) u x = Inr l"
    "forward32 (train32 t m) u x = Inr (context_vec32 l)"
    "vals32 l = tensor3_of (Finite 0) (dim0 x) (dim1 x) dout (affine32 ?wv x)"
    "attn_scores32 l = tensor3_of (Finite 0) (dim0 x) (dim1 x) (dim1 x)
                         (scores32 ?wq ?wk dout x)"
    "attn_softmax32 l = tensor3_of (Finite 0) (dim0 x) (dim1 x) (dim1 x)
                          (weights32 ?wq ?wk dout x)"
    "attn_weights32 l = fst (dropout32 p t u (attn_softmax32 l))"
    "context_vec32 l = tensor3_of (Finite 0) (dim0 x) (dim1 x) dout
       (\<lambda>b i h. f_sum (dim1 x) (\<lambda>j. f_mul (at3 (attn_weights32 l) b i j)
                                         (affine32 ?wv x b j h)))"
    using forward32_locals_fields[OF assms(1,3,5), of t u] by blast
  have aw: "attn_weights32 l = attn_softmax32 l"
    by (simp add: l(6) dropout32_inert[OF assms(6)])
  have main: "(\<forall>j<dim1 x. at3 (attn_weights32 l) b 0 j = (if j = 0 then Finite 1 else Finite 0)) \<and>
              (\<forall>h<dout. (\<forall>j<dim1 x. 0 < j \<longrightarrow> finite32 (at3 (vals32 l) b j h)) \<longrightarrow>
                 at3 (context_vec32 l) b 0 h = at3 (vals32 l) b 0 h)"
    if b: "b < dim0 x" and fin: "finite32 (at3 (attn_scores32 l) b 0 0)" for b
  proof -
    have f: "finite32 (scores32 ?wq ?wk dout x b 0 0)"
      using fin b assms(4) by (simp add: l(4))
    have hot: "at3 (attn_weights32 l) b 0 j = (if j = 0 then Finite 1 else Finite 0)"
      if "j < dim1 x" for j
      using that b assms(4) by (simp add: aw l(5) weights32_first_row[OF assms(2,4) f])
    have "at3 (context_vec32 l) b 0 h = at3 (vals32 l) b 0 h"
      if h: "h < dout" and v: "\<forall>j<dim1 x. 0 < j \<longrightarrow> finite32 (at3 (vals32 l) b j h)" for h
    proof -
      have vj: "finite32 (affine32 ?wv x b j h)" if "0 < j" "j < dim1 x" for j
        using v that b h by (simp add: l(3))
      have "f_sum (dim1 x) (\<lambda>j. f_mul (at3 (attn_weights32 l) b 0 j) (affine32 ?wv x b j h))
            = affine32 ?wv x b 0 h"
      proof (rule f_sum_one_hot[OF assms(4)])
        show "f_mul (at3 (attn_weights32 l) b 0 0) (affine32 ?wv x b 0 h) = affine32 ?wv x b 0 h"
          using hot[of 0] assms(4) by (simp add: f_mul_one_left)
        show "in_range (affine32 ?wv x b 0 h)" by simp
        show "f_mul (at3 (attn_weights32 l) b 0 j) (affine32 ?wv x b j h) = Finite 0"
          if "0 < j" "j < dim1 x" for j
          using hot[OF that(2)] that(1) vj[OF that] by (simp add: f_mul_zero_finite)
      qed
      then show ?thesis
        using b h assms(4) by (simp add: l(7) l(3))
    qed
    then show ?thesis using hot by blast
  qed
  show ?thesis
    using l(1,2) main by blast
qed

theorem first_row_one_hot_witness:
  "\<exists>l. forward32_locals (train32 True (small32 1 1 2 0)) (\<lambda>k. 0) (tokens32 2 1 1 1) = Inr l \<and>
       forward32 (train32 True (small32 1 1 2 0)) (\<lambda>k. 0) (tokens32 2 1 1 1) =
         Inr (context_vec32 l) \<and>
       at3 (attn_weights32 l) 0 0 0 = Finite 1 \<and> at3 (attn_weights32 l) 0 0 1 = Finite 0 \<and>
       at3 (context_vec32 l) 0 0 0 = at3 (vals32 l) 0 0 0"
proof -
  have i: "CausalAttention32_init 1 1 2 0 False unit_values32 = Inr (small32 1 1 2 0)"
    by (rule small32_init) simp_all
  let ?x = "tokens32 2 1 1 1"
  let ?m = "small32 1 1 2 0"
  obtain l where l: "forward32_locals (train32 True ?m) (\<lambda>k. 0) ?x = Inr l"
    "forward32 (train32 True ?m) (\<lambda>k. 0) ?x = Inr (context_vec32 l)"
    and imp: "\<forall>b<dim0 ?x. finite32 (at3 (attn_scores32 l) b 0 0) \<longrightarrow>
       (\<forall>j<dim1 ?x. at3 (attn_weights32 l) b 0 j = (if j = 0 then Finite 1 else Finite 0)) \<and>
       (\<forall>h<1. (\<forall>j<dim1 ?x. 0 < j \<longrightarrow> finite32 (at3 (vals32 l) b j h)) \<longrightarrow>
          at3 (context_vec32 l) b 0 h = at3 (vals32 l) b 0 h)"
    using first_row_one_hot[OF i, of ?x True "\<lambda>k. 0"] by auto
  obtain l' where l': "forward32_locals (train32 True ?m) (\<lambda>k. 0) ?x = Inr l'"
    "attn_scores32 l' = tensor3_of (Finite 0) (dim0 ?x) (dim1 ?x) (dim1 ?x)
       (scores32 (W_query32 ?m) (W_key32 ?m) 1 ?x)"
    "vals32 l' = tensor3_of (Finite 0) (dim0 ?x) (dim1 ?x) 1 (affine32 (W_value32 ?m) ?x)"
    using forward32_locals_fields[OF i, of ?x True "\<lambda>k. 0"] by auto
  have same: "l' = l" using l(1) l'(1) by simp
  have s: "finite32 (at3 (attn_scores32 l) 0 0 0)"
    using l'(2) same affine32_small_tokens[where p = 0 and j = 0 and n = 2 and din = 1 and dout = 1 and c = 2 and a = 1 and v = 1 and h = 0] f32_max_ge_one
    by (simp add: scores32_def ovf_id)
  have v: "finite32 (at3 (vals32 l) 0 j 0)" if "j < 2" for j
    using l'(3) same affine32_small_tokens[where p = 0 and j = j and n = 2 and din = 1 and dout = 1 and c = 2 and a = 1 and v = 1 and h = 0] f32_max_ge_one that
    by (simp add: ovf_id)
  show ?thesis
    using l imp s v by auto
qed

theorem first_row_one_hot_counterexample:
  "\<not> isl (forward32 (small32 1 1 2 1) (\<lambda>k. 0) (tokens32 2 1 1 1)) \<and>
   at3 (projr (forward32 (small32 1 1 2 1) (\<lambda>k. 0) (tokens32 2 1 1 1))) 0 0 0 = Finite 0 \<and>
   at3 (projr (linear32_forward (W_value32 (small32 1 1 2 1)) (tokens32 2 1 1 1))) 0 0 0 =
     Finite 1"
proof -
  have i: "CausalAttention32_init 1 1 2 1 False unit_values32 = Inr (small32 1 1 2 1)"
    by (rule small32_init) simp_all
  let ?x = "tokens32 2 1 1 1"
  let ?m = "small32 1 1 2 1"
  define l where "l = projr (forward32_locals ?m (\<lambda>k. 0) ?x)"
  note l = small32_fields(2,3,4,6,7,8)[where p = 1 and n = 2 and c = 2 and din = 1 and dout = 1
        and a = 1 and v = 1 and u = "\<lambda>k. 0", OF zero_le_one order_refl order_refl,
        folded l_def]
  have sc: "finite32 (scores32 (W_query32 ?m) (W_key32 ?m) 1 ?x 0 0 0)"
    using affine32_small_tokens[where p = 1 and j = 0 and n = 2 and din = 1 and dout = 1 and c = 2 and a = 1 and v = 1 and h = 0] f32_max_ge_one
    by (simp add: scores32_def ovf_id)
  have w: "weights32 (W_query32 ?m) (W_key32 ?m) 1 ?x 0 0 j = (if j = 0 then Finite 1 else Finite 0)"
    for j
    by (rule weights32_first_row[OF _ _ sc]) simp_all
  have v: "affine32 (W_value32 ?m) ?x 0 j 0 = Finite 1" if "j < 2" for j
    using affine32_small_tokens[where p = 1 and j = j and n = 2 and din = 1 and dout = 1 and c = 2 and a = 1 and v = 1 and h = 0] f32_max_ge_one that
    by (simp add: ovf_id)
  have c: "at3 (context_vec32 l) 0 0 0 = Finite 0"
    using v[of 0] v[of 1] f32_max_ge_one w[of 0] w[of 1]
    by (simp add: l(6) l(5) l(4) dropout32_def numel_def eval_nat_numeral ovf_id)
  have p: "at3 (vals32 l) 0 0 0 = Finite 1"
    using v[of 0] by (simp add: l(2))
  show ?thesis
    using c p l(1) l(3) by simp
qed

text \<open>
  Overflow breaks the same claim with dropout 0: a later token whose value projection
  overflows to \<open>+inf\<close> meets the weight 0, and \<open>0 * inf\<close> is NaN.
\<close>

lemma first_context_nan_on_overflow:
  "in_range (Finite (2 ^ 127)) \<and>
   at3 (projr (forward32 (small32 2 1 2 0) (\<lambda>k. 0) (tokens32 2 2 1 (2 ^ 127)))) 0 0 0 = NaN \<and>
   at3 (projr (linear32_forward (W_value32 (small32 2 1 2 0)) (tokens32 2 2 1 (2 ^ 127)))) 0 0 0 =
     Finite 2"
proof -
  have i: "CausalAttention32_init 2 1 2 0 False unit_values32 = Inr (small32 2 1 2 0)"
    by (rule small32_init) simp_all
  let ?x = "tokens32 2 2 1 (2 ^ 127)"
  let ?m = "small32 2 1 2 0"
  define l where "l = projr (forward32_locals ?m (\<lambda>k. 0) ?x)"
  note l = small32_fields(2,3,4,6,7,8)[where p = 0 and n = 2 and c = 2 and din = 2 and dout = 1
        and a = 1 and v = "2 ^ 127" and u = "\<lambda>k. 0", OF order_refl zero_le_one order_refl,
        folded l_def]
  have r: "in_range (Finite (2 ^ 127))"
    by (simp add: f32_max_def)
  have q0: "affine32 (W_query32 ?m) ?x 0 0 0 = Finite 2" "affine32 (W_key32 ?m) ?x 0 0 0 = Finite 2"
    "affine32 (W_value32 ?m) ?x 0 0 0 = Finite 2"
    using affine32_small_tokens[where p = 0 and j = 0 and n = 2 and din = 2 and dout = 1 and c = 2 and a = 1 and v = "2 ^ 127" and h = 0]
    by (simp_all add: eval_nat_numeral ovf_def f32_max_def)
  have v1: "affine32 (W_value32 ?m) ?x 0 1 0 = PlusInf"
    using affine32_small_tokens(3)[where p = 0 and j = 1 and n = 2 and din = 2 and dout = 1 and c = 2 and a = 1 and v = "2 ^ 127" and h = 0]
    by (simp add: eval_nat_numeral ovf_def f32_max_def)
  have sc: "finite32 (scores32 (W_query32 ?m) (W_key32 ?m) 1 ?x 0 0 0)"
    using q0 by (simp add: scores32_def ovf_def f32_max_def)
  have w: "weights32 (W_query32 ?m) (W_key32 ?m) 1 ?x 0 0 j = (if j = 0 then Finite 1 else Finite 0)"
    for j
    by (rule weights32_first_row[OF _ _ sc]) simp_all
  have c: "at3 (context_vec32 l) 0 0 0 = NaN"
    using q0 v1 w[of 0] w[of 1]
    by (simp add: l(6) l(5) l(4) dropout32_def eval_nat_numeral ovf_def f32_max_def
        inf_times_def)
  have p: "at3 (vals32 l) 0 0 0 = Finite 2"
    using q0 by (simp add: l(2))
  show ?thesis
    using c p r l(1) l(3) by simp
qed

text \<open>
  C4, as amended. With dropout inert (probability 0, or evaluation mode), a positive
  output dimension and a context length of at least 1, for every batch of the configured
  width whose sequence length is 1, forward succeeds, and for every batch element whose
  single score is finite (no overflow to an infinity, no NaN): the single attention
  weight is 1 and the returned context vector is the value projection of the token.
\<close>

theorem single_token:
  assumes "CausalAttention32_init din dout c p qb iv = Inr m"
    and "0 < dout" and "dim2 x = din" and "dim1 x = 1" and "1 \<le> c"
    and "p = 0 \<or> \<not> t"
  shows "\<exists>l. forward32_locals (train32 t m) u x = Inr l \<and>
           forward32 (train32 t m) u x = Inr (context_vec32 l) \<and>
           linear32_forward (W_value32 m) x = Inr (vals32 l) \<and>
           (\<forall>b<dim0 x. finite32 (at3 (attn_scores32 l) b 0 0) \<longrightarrow>
              at3 (attn_weights32 l) b 0 0 = Finite 1 \<and>
              (\<forall>h<dout. at3 (context_vec32 l) b 0 h = at3 (vals32 l) b 0 h))"
proof -
  let ?wq = "W_query32 m" and ?wk = "W_key32 m" and ?wv = "W_value32 m"
  have n: "dim1 x \<le> c" "0 < dim1 x"
    using assms(4,5) by simp_all
  obtain l where l: "forward32_locals (train32 t m) u x = Inr l"
    "forward32 (train32 t m) u x = Inr (context_vec32 l)"
    "vals32 l = tensor3_of (Finite 0) (dim0 x) (dim1 x) dout (affine32 ?wv x)"
    "linear32_forward ?wv x = Inr (vals32 l)"
    "attn_scores32 l = tensor3_of (Finite 0) (dim0 x) (dim1 x) (dim1 x)
                         (scores32 ?wq ?wk dout x)"
    "attn_softmax32 l = tensor3_of (Finite 0) (dim0 x) (dim1 x) (dim1 x)
                          (weights32 ?wq ?wk dout x)"
    "attn_weights32 l = fst (dropout32 p t u (attn_softmax32 l))"
    "context_vec32 l = tensor3_of (Finite 0) (dim0 x) (dim1 x) dout
       (\<lambda>b i h. f_sum (dim1 x) (\<lambda>j. f_mul (at3 (attn_weights32 l) b i j)
                                         (affine32 ?wv x b j h)))"
    using forward32_locals_fields[OF assms(1,3) n(1), of t u] by blast
  have aw: "attn_weights32 l = attn_softmax32 l"
    by (simp add: l(7) dropout32_inert[OF assms(6)])
  have main: "at3 (attn_weights32 l) b 0 0 = Finite 1 \<and>
              (\<forall>h<dout. at3 (context_vec32 l) b 0 h = at3 (vals32 l) b 0 h)"
    if b: "b < dim0 x" and fin: "finite32 (at3 (attn_scores32 l) b 0 0)" for b
  proof -
    have f: "finite32 (scores32 ?wq ?wk dout x b 0 0)"
      using fin b n(2) by (simp add: l(5))
    have hot: "at3 (attn_weights32 l) b 0 0 = Finite 1"
      using b n(2) by (simp add: aw l(6) weights32_first_row[OF assms(2) n(2) f])
    have "at3 (context_vec32 l) b 0 h = at3 (vals32 l) b 0 h" if h: "h < dout" for h
    proof -
      have "f_sum (dim1 x) (\<lambda>j. f_mul (at3 (attn_weights32 l) b 0 j) (affine32 ?wv x b j h))
            = affine32 ?wv x b 0 h"
      proof (rule f_sum_one_hot[OF n(2)])
        show "f_mul (at3 (attn_weights32 l) b 0 0) (affine32 ?wv x b 0 h) = affine32 ?wv x b 0 h"
          using hot by (simp add: f_mul_one_left)
        show "in_range (affine32 ?wv x b 0 h)" by simp
        show "f_mul (at3 (attn_weights32 l) b 0 j) (affine32 ?wv x b j h) = Finite 0"
          if "0 < j" "j < dim1 x" for j
          using that assms(4) by simp
      qed
      then show ?thesis
        using b h n(2) by (simp add: l(8) l(3))
    qed
    then show ?thesis using hot by blast
  qed
  show ?thesis
    using l(1,2,4) main by blast
qed

theorem single_token_witness:
  "\<exists>l. forward32_locals (train32 True (small32 1 1 1 0)) (\<lambda>k. 0) (tokens32 1 1 1 0) = Inr l \<and>
       forward32 (train32 True (small32 1 1 1 0)) (\<lambda>k. 0) (tokens32 1 1 1 0) =
         Inr (context_vec32 l) \<and>
       linear32_forward (W_value32 (small32 1 1 1 0)) (tokens32 1 1 1 0) = Inr (vals32 l) \<and>
       at3 (attn_weights32 l) 0 0 0 = Finite 1 \<and>
       at3 (context_vec32 l) 0 0 0 = at3 (vals32 l) 0 0 0"
proof -
  have i: "CausalAttention32_init 1 1 1 0 False unit_values32 = Inr (small32 1 1 1 0)"
    by (rule small32_init) simp_all
  let ?x = "tokens32 1 1 1 0"
  let ?m = "small32 1 1 1 0"
  obtain l where l: "forward32_locals (train32 True ?m) (\<lambda>k. 0) ?x = Inr l"
    "forward32 (train32 True ?m) (\<lambda>k. 0) ?x = Inr (context_vec32 l)"
    "linear32_forward (W_value32 ?m) ?x = Inr (vals32 l)"
    and imp: "\<forall>b<dim0 ?x. finite32 (at3 (attn_scores32 l) b 0 0) \<longrightarrow>
       at3 (attn_weights32 l) b 0 0 = Finite 1 \<and>
       (\<forall>h<1. at3 (context_vec32 l) b 0 h = at3 (vals32 l) b 0 h)"
    using single_token[OF i, of ?x True "\<lambda>k. 0"] by auto
  obtain l' where l': "forward32_locals (train32 True ?m) (\<lambda>k. 0) ?x = Inr l'"
    "attn_scores32 l' = tensor3_of (Finite 0) (dim0 ?x) (dim1 ?x) (dim1 ?x)
       (scores32 (W_query32 ?m) (W_key32 ?m) 1 ?x)"
    using forward32_locals_fields[OF i, of ?x True "\<lambda>k. 0"] by auto
  have same: "l' = l" using l(1) l'(1) by simp
  have s: "finite32 (at3 (attn_scores32 l) 0 0 0)"
    using l'(2) same affine32_small_tokens[where p = 0 and j = 0 and n = 1 and din = 1 and dout = 1 and c = 1 and a = 1 and v = 0 and h = 0] f32_max_ge_one
    by (simp add: scores32_def ovf_id)
  show ?thesis
    using l imp s by auto
qed

theorem single_token_counterexample:
  "\<not> isl (forward32_locals (small32 1 1 1 (1 / 2)) (\<lambda>k. 0) (tokens32 1 1 1 0)) \<and>
   at3 (attn_weights32
         (projr (forward32_locals (small32 1 1 1 (1 / 2)) (\<lambda>k. 0) (tokens32 1 1 1 0))))
     0 0 0 = Finite 2 \<and>
   at3 (projr (forward32 (small32 1 1 1 (1 / 2)) (\<lambda>k. 0) (tokens32 1 1 1 0))) 0 0 0 = Finite 2 \<and>
   at3 (projr (linear32_forward (W_value32 (small32 1 1 1 (1 / 2))) (tokens32 1 1 1 0))) 0 0 0 =
     Finite 1"
proof -
  let ?x = "tokens32 1 1 1 0"
  let ?m = "small32 1 1 1 (1 / 2)"
  define l where "l = projr (forward32_locals ?m (\<lambda>k. 0) ?x)"
  note l = small32_fields[where p = "1 / 2" and n = 1 and c = 1 and din = 1 and dout = 1
        and a = 1 and v = 0 and u = "\<lambda>k. 0", folded l_def]
  have le: "(0::real) \<le> 1 / 2" "(1::real) / 2 \<le> 1" "(1::nat) \<le> 1" by simp_all
  note l = l[OF le]
  have q: "affine32 (W_query32 ?m) ?x 0 0 0 = Finite 1" "affine32 (W_key32 ?m) ?x 0 0 0 = Finite 1"
    "affine32 (W_value32 ?m) ?x 0 0 0 = Finite 1"
    using affine32_small_tokens[where p = "1 / 2" and j = 0 and n = 1 and din = 1 and dout = 1 and c = 1 and a = 1 and v = 0 and h = 0] f32_max_ge_one
    by (simp_all add: ovf_id)
  have sc: "finite32 (scores32 (W_query32 ?m) (W_key32 ?m) 1 ?x 0 0 0)"
    using q f32_max_ge_one by (simp add: scores32_def ovf_id)
  have w: "weights32 (W_query32 ?m) (W_key32 ?m) 1 ?x 0 0 j = (if j = 0 then Finite 1 else Finite 0)"
    for j
    by (rule weights32_first_row[OF _ _ sc]) simp_all
  have two: "ovf 2 = Finite 2"
    using f32_max_ge_one by (simp add: ovf_def f32_max_def)
  have a: "at3 (attn_weights32 l) 0 0 0 = Finite 2"
    using w[of 0] two by (simp add: l(7) l(6) dropout32_def numel_def)
  have c: "at3 (context_vec32 l) 0 0 0 = Finite 2"
    using a q two by (simp add: l(8))
  have p: "at3 (vals32 l) 0 0 0 = Finite 1"
    using q by (simp add: l(3))
  show ?thesis
    using a c p l(1) l(2) l(4) by simp
qed

text \<open>
  The clause on a finite score is needed: one token whose score overflows has the weight
  NaN, and the context vector is NaN.
\<close>

lemma one_token_nan_on_overflow:
  "in_range (Finite (2 ^ 100)) \<and>
   at3 (attn_weights32
         (projr (forward32_locals (small32 1 1 1 0) (\<lambda>k. 0) (tokens32 1 1 (2 ^ 100) 0))))
     0 0 0 = NaN \<and>
   at3 (projr (forward32 (small32 1 1 1 0) (\<lambda>k. 0) (tokens32 1 1 (2 ^ 100) 0))) 0 0 0 = NaN \<and>
   at3 (projr (linear32_forward (W_value32 (small32 1 1 1 0)) (tokens32 1 1 (2 ^ 100) 0)))
     0 0 0 = Finite (2 ^ 100)"
proof -
  let ?x = "tokens32 1 1 (2 ^ 100) 0"
  let ?m = "small32 1 1 1 0"
  define l where "l = projr (forward32_locals ?m (\<lambda>k. 0) ?x)"
  note l = small32_fields[where p = 0 and n = 1 and c = 1 and din = 1 and dout = 1
        and a = "2 ^ 100" and v = 0 and u = "\<lambda>k. 0", OF order_refl zero_le_one order_refl,
        folded l_def]
  have r: "in_range (Finite (2 ^ 100))"
    by (simp add: f32_max_def)
  have q: "affine32 (W_query32 ?m) ?x 0 0 0 = Finite (2 ^ 100)"
    "affine32 (W_key32 ?m) ?x 0 0 0 = Finite (2 ^ 100)"
    "affine32 (W_value32 ?m) ?x 0 0 0 = Finite (2 ^ 100)"
    using affine32_small_tokens[where p = 0 and j = 0 and n = 1 and din = 1 and dout = 1 and c = 1 and a = "2 ^ 100" and v = 0 and h = 0]
    by (simp_all add: ovf_def f32_max_def)
  have s: "at3 (attn_softmax32 l) 0 0 0 = NaN"
    using q by (simp add: l(6) weights32_def scores32_def softmax_row_def nan_row_def ovf_def
        f32_max_def)
  have a: "at3 (attn_weights32 l) 0 0 0 = NaN"
    using s by (simp add: l(7) dropout32_def)
  have c: "at3 (context_vec32 l) 0 0 0 = NaN"
    using a by (simp add: l(8))
  have p: "at3 (vals32 l) 0 0 0 = Finite (2 ^ 100)"
    using q by (simp add: l(3))
  show ?thesis
    using r a c p l(1) l(2) l(4) by simp
qed

text \<open>
  The clause on the context length is needed as well: a module built with context length
  0 raises on a batch of one token.
\<close>

lemma masked_fill32_too_long:
  assumes "c < n" "c \<noteq> 1"
  shows "masked_fill32 (tensor3_of (Finite 0) B n n f)
           (slice2 n n (to_bool (triu (ones c c) 1))) = Inl RuntimeError"
  unfolding masked_fill32_def
  using assms by (auto simp: causal_mask_slice_big[OF assms(1)])

lemma forward32_too_long:
  assumes init: "CausalAttention32_init din dout c p qb iv = Inr m"
    and w: "dim2 x = din" and n: "c < dim1 x" "c \<noteq> 1"
  shows "forward32 (train32 t m) u x = Inl RuntimeError"
  unfolding forward32_def forward32_locals_def
  by (simp add: init32_Inr(2-7)[OF init] linear32_forward_Linear32[OF w] matmul32_transpose_of
      masked_fill32_too_long[OF n])

lemma one_token_context_zero:
  "forward32 (small32 1 1 0 0) (\<lambda>k. 0) (tokens32 1 1 1 0) = Inl RuntimeError"
proof -
  have i: "CausalAttention32_init 1 1 0 0 False unit_values32 = Inr (small32 1 1 0 0)"
    by (rule small32_init) simp_all
  show ?thesis
    using forward32_too_long[OF i, of "tokens32 1 1 1 0" True "\<lambda>k. 0",
        unfolded train32_True_built[OF i]]
    by simp
qed

lemma affine32_agree:
  assumes "\<And>k. k < cols (weight32 l) \<Longrightarrow> at3 x' b i k = at3 x b i k"
  shows "affine32 l x' b i h = affine32 l x b i h"
proof -
  have "f_sum (cols (weight32 l)) (\<lambda>k. f_mul (at3 x' b i k) (at2 (weight32 l) h k)) =
        f_sum (cols (weight32 l)) (\<lambda>k. f_mul (at3 x b i k) (at2 (weight32 l) h k))"
    by (rule f_sum_cong) (simp add: assms)
  then show ?thesis
    by (simp add: affine32_def)
qed

text \<open>A weight at a masked position is 0, or NaN when its row is; dropout keeps it so.\<close>

lemma weights32_future:
  "i < j \<Longrightarrow> weights32 wq wk dout x b i j = NaN \<or> weights32 wq wk dout x b i j = Finite 0"
  by (simp add: weights32_def softmax_row_def scores32_def)

lemma f_mul_masked:
  "w = NaN \<or> w = Finite 0 \<Longrightarrow> f_mul w f = NaN \<or> f_mul w f = Finite 0"
  by (cases f) (auto simp: inf_times_def)

lemma f_mul_masked_finite:
  "w = NaN \<or> w = Finite 0 \<Longrightarrow> finite32 v \<Longrightarrow> finite32 v' \<Longrightarrow> f_mul w v = f_mul w v'"
  by (auto simp: finite32_iff)

lemma dropout32_at_agree:
  "w' b i j = w b i j \<Longrightarrow>
   at3 (fst (dropout32 p t u (tensor3_of z B n n' w'))) b i j =
   at3 (fst (dropout32 p t u (tensor3_of z B n n' w))) b i j"
  by (simp add: dropout32_def numel_def)

lemma dropout32_at_masked:
  assumes "b < B" "i < n" "j < n'" and "w b i j = NaN \<or> w b i j = Finite 0"
  shows "at3 (fst (dropout32 p t u (tensor3_of (Finite 0) B n n' w))) b i j = NaN \<or>
         at3 (fst (dropout32 p t u (tensor3_of (Finite 0) B n n' w))) b i j = Finite 0"
  using assms f_mul_masked[OF assms(4)]
  by (simp add: dropout32_def)

text \<open>
  C3, as amended. Future independence. For every position i and every two batches of the
  same shape, of the configured width and of length at most the context length, that
  agree on all positions at or before i, forward run from the same generator state
  succeeds on both; and in every output column where the value projections of the tokens
  after i are finite in both runs (no overflow to an infinity, no NaN), the two context
  vectors at position i hold the same float32 value, whatever else the batches hold at
  positions after i.
\<close>

theorem future_independence:
  assumes "CausalAttention32_init din dout c p qb iv = Inr m"
    and "dim2 x = din" and "dim2 x' = din"
    and "dim0 x' = dim0 x" and "dim1 x' = dim1 x" and "dim1 x \<le> c"
    and "\<forall>b<dim0 x. \<forall>j\<le>i. \<forall>k<din. at3 x' b j k = at3 x b j k"
  shows "\<exists>l l'. forward32_locals (train32 t m) u x = Inr l \<and>
                forward32_locals (train32 t m) u x' = Inr l' \<and>
                forward32 (train32 t m) u x = Inr (context_vec32 l) \<and>
                forward32 (train32 t m) u x' = Inr (context_vec32 l') \<and>
                (\<forall>b<dim0 x. \<forall>h<dout.
                   (\<forall>j<dim1 x. i < j \<longrightarrow> finite32 (at3 (vals32 l) b j h) \<and>
                                          finite32 (at3 (vals32 l') b j h)) \<longrightarrow>
                   at3 (context_vec32 l) b i h = at3 (context_vec32 l') b i h)"
proof -
  let ?wq = "W_query32 m" and ?wk = "W_key32 m" and ?wv = "W_value32 m"
  let ?B = "dim0 x" and ?n = "dim1 x"
  have n': "dim1 x' \<le> c" using assms(5,6) by simp
  obtain l where l: "forward32_locals (train32 t m) u x = Inr l"
    "forward32 (train32 t m) u x = Inr (context_vec32 l)"
    "vals32 l = tensor3_of (Finite 0) ?B ?n dout (affine32 ?wv x)"
    "attn_softmax32 l = tensor3_of (Finite 0) ?B ?n ?n (weights32 ?wq ?wk dout x)"
    "attn_weights32 l = fst (dropout32 p t u (attn_softmax32 l))"
    "context_vec32 l = tensor3_of (Finite 0) ?B ?n dout
       (\<lambda>b i h. f_sum ?n (\<lambda>j. f_mul (at3 (attn_weights32 l) b i j) (affine32 ?wv x b j h)))"
    using forward32_locals_fields[OF assms(1,2,6), of t u] by blast
  obtain l' where l': "forward32_locals (train32 t m) u x' = Inr l'"
    "forward32 (train32 t m) u x' = Inr (context_vec32 l')"
    "vals32 l' = tensor3_of (Finite 0) ?B ?n dout (affine32 ?wv x')"
    "attn_softmax32 l' = tensor3_of (Finite 0) ?B ?n ?n (weights32 ?wq ?wk dout x')"
    "attn_weights32 l' = fst (dropout32 p t u (attn_softmax32 l'))"
    "context_vec32 l' = tensor3_of (Finite 0) ?B ?n dout
       (\<lambda>b i h. f_sum ?n (\<lambda>j. f_mul (at3 (attn_weights32 l') b i j) (affine32 ?wv x' b j h)))"
    using forward32_locals_fields[OF assms(1,3) n', of t u, unfolded assms(4,5)] by blast
  have cols: "cols (weight32 ?wq) = din" "cols (weight32 ?wk) = din" "cols (weight32 ?wv) = din"
    by (simp_all add: init32_Inr(2-4)[OF assms(1)])
  have row: "affine32 a x' b j h = affine32 a x b j h"
    if "b < ?B" "j \<le> i" "cols (weight32 a) = din" for a b j h
    using that assms(7) by (intro affine32_agree) simp
  have sc: "scores32 ?wq ?wk dout x' b i j = scores32 ?wq ?wk dout x b i j"
    if "b < ?B" for b j
    using that by (simp add: scores32_def row cols)
  have weights: "weights32 ?wq ?wk dout x' b i j = weights32 ?wq ?wk dout x b i j"
    if "b < ?B" for b j
    using that by (simp add: weights32_def sc assms(5))
  have main: "at3 (context_vec32 l) b i h = at3 (context_vec32 l') b i h"
    if b: "b < ?B" and h: "h < dout"
      and fin: "\<forall>j<?n. i < j \<longrightarrow> finite32 (at3 (vals32 l) b j h) \<and>
                                   finite32 (at3 (vals32 l') b j h)" for b h
  proof (cases "i < ?n")
    case False
    then show ?thesis by (simp add: l(6) l'(6))
  next
    case i: True
    have "f_sum ?n (\<lambda>j. f_mul (at3 (attn_weights32 l) b i j) (affine32 ?wv x b j h)) =
          f_sum ?n (\<lambda>j. f_mul (at3 (attn_weights32 l') b i j) (affine32 ?wv x' b j h))"
    proof (rule f_sum_cong)
      fix j assume j: "j < ?n"
      have w: "at3 (attn_weights32 l') b i j = at3 (attn_weights32 l) b i j"
        unfolding l(5) l'(5) l(4) l'(4)
        by (rule dropout32_at_agree) (rule weights[OF b])
      show "f_mul (at3 (attn_weights32 l) b i j) (affine32 ?wv x b j h) =
            f_mul (at3 (attn_weights32 l') b i j) (affine32 ?wv x' b j h)"
      proof (cases "j \<le> i")
        case True
        then show ?thesis
          by (simp add: w row[OF b True cols(3)])
      next
        case False
        then have ij: "i < j" by simp
        have m: "at3 (attn_weights32 l) b i j = NaN \<or> at3 (attn_weights32 l) b i j = Finite 0"
          unfolding l(5) l(4)
          by (rule dropout32_at_masked[OF b i j]) (rule weights32_future[OF ij])
        have f: "finite32 (affine32 ?wv x b j h)" "finite32 (affine32 ?wv x' b j h)"
          using fin j ij b h by (simp_all add: l(3) l'(3))
        show ?thesis
          unfolding w by (rule f_mul_masked_finite[OF m f])
      qed
    qed
    then show ?thesis
      using b h i by (simp add: l(6) l'(6))
  qed
  show ?thesis
    using l(1,2) l'(1,2) main by blast
qed

theorem future_independence_witness:
  "at3 (tokens32 2 2 1 3) 0 1 0 \<noteq> at3 (tokens32 2 2 1 1) 0 1 0 \<and>
   (\<exists>l l'. forward32_locals (train32 True (small32 2 1 2 0)) (\<lambda>k. 0) (tokens32 2 2 1 1) =
              Inr l \<and>
            forward32_locals (train32 True (small32 2 1 2 0)) (\<lambda>k. 0) (tokens32 2 2 1 3) =
              Inr l' \<and>
            forward32 (train32 True (small32 2 1 2 0)) (\<lambda>k. 0) (tokens32 2 2 1 1) =
              Inr (context_vec32 l) \<and>
            forward32 (train32 True (small32 2 1 2 0)) (\<lambda>k. 0) (tokens32 2 2 1 3) =
              Inr (context_vec32 l') \<and>
            at3 (context_vec32 l) 0 0 0 = at3 (context_vec32 l') 0 0 0)"
proof -
  have i: "CausalAttention32_init 2 1 2 0 False unit_values32 = Inr (small32 2 1 2 0)"
    by (rule small32_init) simp_all
  let ?m = "small32 2 1 2 0"
  let ?x = "tokens32 2 2 1 1" and ?x' = "tokens32 2 2 1 3"
  have agree: "\<forall>b<dim0 ?x. \<forall>j\<le>0. \<forall>k<2. at3 ?x' b j k = at3 ?x b j k"
    by (simp add: tokens32_def)
  obtain l l' where l: "forward32_locals (train32 True ?m) (\<lambda>k. 0) ?x = Inr l"
    "forward32_locals (train32 True ?m) (\<lambda>k. 0) ?x' = Inr l'"
    "forward32 (train32 True ?m) (\<lambda>k. 0) ?x = Inr (context_vec32 l)"
    "forward32 (train32 True ?m) (\<lambda>k. 0) ?x' = Inr (context_vec32 l')"
    and imp: "\<forall>b<dim0 ?x. \<forall>h<1.
                   (\<forall>j<dim1 ?x. 0 < j \<longrightarrow> finite32 (at3 (vals32 l) b j h) \<and>
                                          finite32 (at3 (vals32 l') b j h)) \<longrightarrow>
                   at3 (context_vec32 l) b 0 h = at3 (context_vec32 l') b 0 h"
    using future_independence[OF i, of ?x ?x' 0 True "\<lambda>k. 0"] agree by auto
  obtain l2 where l2: "forward32_locals (train32 True ?m) (\<lambda>k. 0) ?x = Inr l2"
    "vals32 l2 = tensor3_of (Finite 0) (dim0 ?x) (dim1 ?x) 1 (affine32 (W_value32 ?m) ?x)"
    using forward32_locals_fields[OF i, of ?x True "\<lambda>k. 0"] by auto
  obtain l3 where l3: "forward32_locals (train32 True ?m) (\<lambda>k. 0) ?x' = Inr l3"
    "vals32 l3 = tensor3_of (Finite 0) (dim0 ?x') (dim1 ?x') 1 (affine32 (W_value32 ?m) ?x')"
    using forward32_locals_fields[OF i, of ?x' True "\<lambda>k. 0"] by auto
  have same: "l2 = l" "l3 = l'" using l(1,2) l2(1) l3(1) by simp_all
  have v: "finite32 (at3 (vals32 l) 0 1 0)"
    using l2(2) same affine32_small_tokens(3)[where p = 0 and j = 1 and n = 2 and din = 2 and dout = 1 and c = 2 and a = 1 and v = 1 and h = 0]
    by (simp add: eval_nat_numeral ovf_def f32_max_def)
  have v': "finite32 (at3 (vals32 l') 0 1 0)"
    using l3(2) same affine32_small_tokens(3)[where p = 0 and j = 1 and n = 2 and din = 2 and dout = 1 and c = 2 and a = 1 and v = 3 and h = 0]
    by (simp add: eval_nat_numeral ovf_def f32_max_def)
  have fin: "\<forall>j<dim1 ?x. 0 < j \<longrightarrow> finite32 (at3 (vals32 l) 0 j 0) \<and>
                                          finite32 (at3 (vals32 l') 0 j 0)"
    using v v' by (auto simp: less_Suc_eq eval_nat_numeral)
  have eq: "at3 (context_vec32 l) 0 0 0 = at3 (context_vec32 l') 0 0 0"
    using imp fin by simp
  have ne: "at3 ?x' 0 1 0 \<noteq> at3 ?x 0 1 0"
    by (simp add: tokens32_def)
  show ?thesis
    using ne l eq by blast
qed

lemma context_finite_example:
  "at3 (projr (forward32 (small32 2 1 2 0) (\<lambda>k. 0) (tokens32 2 2 1 1))) 0 0 0 = Finite 2"
proof -
  let ?x = "tokens32 2 2 1 1"
  let ?m = "small32 2 1 2 0"
  define l where "l = projr (forward32_locals ?m (\<lambda>k. 0) ?x)"
  note l = small32_fields(2,3,4,6,7,8)[where p = 0 and n = 2 and c = 2 and din = 2 and dout = 1
        and a = 1 and v = 1 and u = "\<lambda>k. 0", OF order_refl zero_le_one order_refl,
        folded l_def]
  have q: "affine32 (W_query32 ?m) ?x 0 j 0 = Finite 2" "affine32 (W_key32 ?m) ?x 0 j 0 = Finite 2"
    "affine32 (W_value32 ?m) ?x 0 j 0 = Finite 2" if "j < 2" for j
    using affine32_small_tokens[where p = 0 and j = j and n = 2 and din = 2 and dout = 1 and c = 2 and a = 1 and v = 1 and h = 0] that
    by (simp_all add: eval_nat_numeral ovf_def f32_max_def)
  have sc: "finite32 (scores32 (W_query32 ?m) (W_key32 ?m) 1 ?x 0 0 0)"
    using q[of 0] by (simp add: scores32_def ovf_def f32_max_def)
  have w: "weights32 (W_query32 ?m) (W_key32 ?m) 1 ?x 0 0 j = (if j = 0 then Finite 1 else Finite 0)"
    for j
    by (rule weights32_first_row[OF _ _ sc]) simp_all
  have c: "at3 (context_vec32 l) 0 0 0 = Finite 2"
    using q[of 0] q[of 1] w[of 0] w[of 1]
    by (simp add: l(6) l(5) l(4) dropout32_def eval_nat_numeral ovf_def f32_max_def)
  show ?thesis
    using c l(1) by simp
qed

theorem future_independence_counterexample:
  "in_range (Finite (2 ^ 127)) \<and>
   at3 (tokens32 2 2 1 (2 ^ 127)) 0 0 0 = at3 (tokens32 2 2 1 1) 0 0 0 \<and>
   at3 (tokens32 2 2 1 (2 ^ 127)) 0 0 1 = at3 (tokens32 2 2 1 1) 0 0 1 \<and>
   at3 (projr (forward32 (small32 2 1 2 0) (\<lambda>k. 0) (tokens32 2 2 1 1))) 0 0 0 = Finite 2 \<and>
   at3 (projr (forward32 (small32 2 1 2 0) (\<lambda>k. 0) (tokens32 2 2 1 (2 ^ 127)))) 0 0 0 = NaN"
  using context_finite_example first_context_nan_on_overflow
  by (simp add: tokens32_def)

lemma masked_fill32_one:
  assumes "c < n" "c = 1"
  shows "masked_fill32 (tensor3_of (Finite 0) B n n f)
           (slice2 n n (to_bool (triu (ones c c) 1))) = Inr (tensor3_of (Finite 0) B n n f)"
proof -
  let ?m = "slice2 n n (to_bool (triu (ones c c) 1))"
  have m: "rows ?m = c" "cols ?m = c" "at2 ?m 0 0 = False"
    using causal_mask_slice_big[OF assms(1)] by simp_all
  have ifs: "(if c = 1 then 0 else i) = (0::nat)" for i
    using assms(2) by simp
  have "masked_fill32 (tensor3_of (Finite 0) B n n f) ?m =
      Inr (tensor3_of (Finite 0) B n n (\<lambda>b i j. at3 (tensor3_of (Finite 0) B n n f) b i j))"
    unfolding masked_fill32_def m ifs using assms(2) by simp
  also have "tensor3_of (Finite 0) B n n (\<lambda>b i j. at3 (tensor3_of (Finite 0) B n n f) b i j) =
      tensor3_of (Finite 0) B n n f"
    by (rule tensor3_of_cong) simp
  finally show ?thesis .
qed

text \<open>
  forward on a module built with context length 1 and a longer sequence: the 1-by-1 mask
  is broadcast, its single entry is False, and no score is filled.
\<close>

lemma forward32_context_one:
  assumes init: "CausalAttention32_init din dout c p qb iv = Inr m"
    and w: "dim2 x = din" and n: "c < dim1 x" "c = 1" and d: "p = 0 \<or> \<not> t"
  shows "forward32 (train32 t m) u x =
     Inr (tensor3_of (Finite 0) (dim0 x) (dim1 x) dout
       (\<lambda>b i h. f_sum (dim1 x) (\<lambda>j. f_mul
          (softmax_row (dim1 x)
             (\<lambda>k. f_div_scalar
                (f_sum dout (\<lambda>h. f_mul (affine32 (W_query32 m) x b i h)
                                         (affine32 (W_key32 m) x b k h)))
                (sqrt (real dout))) j)
          (affine32 (W_value32 m) x b j h))))"
proof -
  note f = init32_Inr[OF init]
  show ?thesis
    unfolding forward32_def forward32_locals_def
    by (simp add: f(2-7) linear32_forward_Linear32[OF w] matmul32_transpose_of
        masked_fill32_one[OF n] div_scalar32_of softmax32_of dropout32_inert[OF d]
        matmul32_of_right Let_def)
       (auto intro!: tensor3_of_cong f_sum_cong)
qed

text \<open>
  Future independence needs the bound on the length: a module built with context
  length 1 accepts two tokens and masks nothing, so the context vector at position 0
  changes with the token at position 1.
\<close>

lemma future_leak_at_context_one:
  "at3 (tokens32 2 1 1 0) 0 0 0 = at3 (tokens32 2 1 1 1) 0 0 0 \<and>
   at3 (projr (forward32 (small32 1 1 1 0) (\<lambda>k. 0) (tokens32 2 1 1 1))) 0 0 0 = Finite 1 \<and>
   at3 (projr (forward32 (small32 1 1 1 0) (\<lambda>k. 0) (tokens32 2 1 1 0))) 0 0 0 \<noteq> Finite 1"
proof -
  have i: "CausalAttention32_init 1 1 1 0 False unit_values32 = Inr (small32 1 1 1 0)"
    by (rule small32_init) simp_all
  let ?m = "small32 1 1 1 0"
  have one: "ovf 1 = Finite 1" "ovf (1 / 2) = Finite (1 / 2)"
    using f32_max_ge_one by (simp_all add: ovf_def)
  have a: "affine32 (W_query32 ?m) (tokens32 2 1 1 v) 0 j 0 = ovf (if j = 0 then 1 else v)"
    "affine32 (W_key32 ?m) (tokens32 2 1 1 v) 0 j 0 = ovf (if j = 0 then 1 else v)"
    "affine32 (W_value32 ?m) (tokens32 2 1 1 v) 0 j 0 = ovf (if j = 0 then 1 else v)"
    if "j < 2" "\<bar>v\<bar> \<le> 1" for j v
  proof -
    have r: "\<bar>if j = 0 then 1 else v\<bar> \<le> f32_max"
      using that(2) f32_max_ge_one by auto
    show "affine32 (W_query32 ?m) (tokens32 2 1 1 v) 0 j 0 = ovf (if j = 0 then 1 else v)"
      "affine32 (W_key32 ?m) (tokens32 2 1 1 v) 0 j 0 = ovf (if j = 0 then 1 else v)"
      "affine32 (W_value32 ?m) (tokens32 2 1 1 v) 0 j 0 = ovf (if j = 0 then 1 else v)"
      using affine32_small_tokens[where p = 0 and j = j and n = 2 and din = 1 and dout = 1
          and c = 1 and a = 1 and v = v and h = 0] that(1) r
      by (simp_all add: ovf_id)
  qed
  have F: "forward32 ?m (\<lambda>k. 0) (tokens32 2 1 1 v) =
     Inr (tensor3_of (Finite 0) 1 2 1
       (\<lambda>b i h. f_sum 2 (\<lambda>j. f_mul
          (softmax_row 2
             (\<lambda>k. f_div_scalar
                (f_sum 1 (\<lambda>h. f_mul (affine32 (W_query32 ?m) (tokens32 2 1 1 v) b i h)
                                      (affine32 (W_key32 ?m) (tokens32 2 1 1 v) b k h)))
                (sqrt (real 1))) j)
          (affine32 (W_value32 ?m) (tokens32 2 1 1 v) b j h))))" for v
    using forward32_context_one[OF i, of "tokens32 2 1 1 v" True "\<lambda>k. 0",
        unfolded train32_True_built[OF i]]
    by simp
  have E: "at3 (projr (forward32 ?m (\<lambda>k. 0) (tokens32 2 1 1 v))) 0 0 0 =
       f_sum 2 (\<lambda>j. f_mul
          (softmax_row 2
             (\<lambda>k. f_div_scalar
                (f_sum 1 (\<lambda>h. f_mul (affine32 (W_query32 ?m) (tokens32 2 1 1 v) 0 0 h)
                                      (affine32 (W_key32 ?m) (tokens32 2 1 1 v) 0 k h)))
                (sqrt (real 1))) j)
          (affine32 (W_value32 ?m) (tokens32 2 1 1 v) 0 j 0))" for v
    by (subst F) simp
  have S: "softmax_row 2
             (\<lambda>k. f_div_scalar
                (f_sum 1 (\<lambda>h. f_mul (affine32 (W_query32 ?m) (tokens32 2 1 1 v) 0 0 h)
                                      (affine32 (W_key32 ?m) (tokens32 2 1 1 v) 0 k h)))
                (sqrt (real 1))) j =
           softmax_row 2 (\<lambda>k. Finite (if k = 0 then 1 else v)) j"
    if "j < 2" "\<bar>v\<bar> \<le> 1" for j v
  proof (rule softmax_row_cong[OF _ that(1)])
    fix k :: nat assume k: "k < 2"
    have r: "\<bar>if k = 0 then 1 else v\<bar> \<le> f32_max"
      using that(2) f32_max_ge_one by auto
    show "f_div_scalar
            (f_sum 1 (\<lambda>h. f_mul (affine32 (W_query32 ?m) (tokens32 2 1 1 v) 0 0 h)
                                  (affine32 (W_key32 ?m) (tokens32 2 1 1 v) 0 k h)))
            (sqrt (real 1)) = Finite (if k = 0 then 1 else v)"
      using a(1)[of 0 v] a(2)[OF k that(2)] that(2) one(1) ovf_id[OF r]
      by simp
  qed
  have W: "softmax_row 2 (\<lambda>k. Finite (if k = 0 then 1 else v)) j =
             Finite (exp (if j = 0 then 1 else v) / (exp 1 + exp v))" for j :: nat and v :: real
  proof -
    have "\<not> nan_row 2 (\<lambda>k. Finite (if k = 0 then 1 else v))"
      by (auto simp: nan_row_def intro: exI[of _ 0])
    then show ?thesis
      by (simp add: softmax_row_def eval_nat_numeral lessThan_Suc)
  qed
  have e: "exp 1 / (exp 1 + 1) < (1::real)" "0 < exp 1 / (exp 1 + 1 :: real)"
    by (simp_all add: add_pos_pos)
  have r: "ovf (exp 1 / (exp 1 + 1)) = Finite (exp 1 / (exp 1 + 1))"
    using e f32_max_ge_one by (intro ovf_id) simp
  have c1: "at3 (projr (forward32 ?m (\<lambda>k. 0) (tokens32 2 1 1 1))) 0 0 0 = Finite 1"
    unfolding E
    using a(3)[of 0 1] a(3)[of 1 1] one S[of 0 1] S[of 1 1] W[of 1 0] W[of 1 1]
    by (simp add: eval_nat_numeral)
  have c0: "at3 (projr (forward32 ?m (\<lambda>k. 0) (tokens32 2 1 1 0))) 0 0 0 =
              Finite (exp 1 / (exp 1 + 1))"
    unfolding E
    using a(3)[of 0 0] a(3)[of 1 0] one r S[of 0 0] S[of 1 0] W[of 0 0] W[of 0 1]
    by (simp add: eval_nat_numeral)
  show ?thesis
    using c1 c0 e by (simp add: tokens32_def)
qed

end
